theory Spec2Isabelle
  imports Main
begin

section \<open>Errors\<close>

text \<open>
  A thrown JavaScript error value: the name of its class and its message.
  \<open>String(err)\<close> of such a value is \<open>name: message\<close>.
\<close>

datatype error = JsError (err_name: string) (err_message: string)

definition String_of_error :: "error \<Rightarrow> string" where
  "String_of_error e =
     (if err_name e = [] then err_message e
      else if err_message e = [] then err_name e
      else err_name e @ '': '' @ err_message e)"

section \<open>The proxy-fetch module (src/infra/proxy-fetch.ts)\<close>

text \<open>
  A value that can sit in \<open>globalThis.fetch\<close>: a fetch function of the host (of any
  kind \<open>'f\<close>), or the function \<open>wrapFetchWithAbortSignal(proxyFetch)\<close> built by
  \<open>installProxyFetch\<close> around the dispatcher \<open>agent\<close>.
\<close>

datatype ('f, 'a) fetch_fn = HostFetch 'f | WrappedProxyFetch 'a

text \<open>
  The module-level variables \<open>originalFetch\<close>, \<open>proxyInstalled\<close>,
  \<open>installedProxyUrl\<close>, together with the global \<open>globalThis.fetch\<close> the module
  reads and assigns. \<open>None\<close> is \<open>undefined\<close>: a runtime without a global fetch has
  \<open>globalThis.fetch\<close> undefined, and \<open>installProxyFetch\<close> saves it as it is.
\<close>

record ('f, 'a) proxy_state =
  globalFetch :: "('f, 'a) fetch_fn option"
  originalFetch :: "('f, 'a) fetch_fn option"
  proxyInstalled :: bool
  installedProxyUrl :: "string option"

text \<open>The state when the module is loaded, with \<open>g\<close> in \<open>globalThis.fetch\<close>.\<close>

definition initial_state :: "('f, 'a) fetch_fn option \<Rightarrow> ('f, 'a) proxy_state" where
  "initial_state g =
     \<lparr>globalFetch = g, originalFetch = None, proxyInstalled = False, installedProxyUrl = None\<rparr>"

text \<open>
  \<open>uninstallProxyFetch\<close> returns at once when no proxy is installed and also when
  \<open>originalFetch\<close> is undefined (\<open>!originalFetch\<close>).
\<close>

definition uninstallProxyFetch :: "('f, 'a) proxy_state \<Rightarrow> ('f, 'a) proxy_state" where
  "uninstallProxyFetch s =
     (if \<not> proxyInstalled s then s
      else case originalFetch s of
             None \<Rightarrow> s
           | Some orig \<Rightarrow>
               s\<lparr>globalFetch := Some orig, originalFetch := None,
                 proxyInstalled := False, installedProxyUrl := None\<rparr>)"

text \<open>
  \<open>installProxyFetch\<close>. The constructor \<open>new ProxyAgent(proxyUrl)\<close> of the undici
  library is the parameter \<open>ProxyAgent\<close>: it returns the agent or throws (it rejects an
  empty or unparsable URL). The throw leaves \<open>installProxyFetch\<close> after the assignment
  to \<open>originalFetch\<close> and before the three assignments that follow it.
\<close>

definition installProxyFetch ::
  "(string \<Rightarrow> error + 'a) \<Rightarrow> string \<Rightarrow> ('f, 'a) proxy_state
     \<Rightarrow> (error + unit) \<times> ('f, 'a) proxy_state" where
  "installProxyFetch ProxyAgent proxyUrl s =
     (if proxyInstalled s \<and> installedProxyUrl s = Some proxyUrl then (Inr (), s)
      else
        let s1 = (if proxyInstalled s then uninstallProxyFetch s else s);
            s2 = s1\<lparr>originalFetch := globalFetch s1\<rparr>
        in case ProxyAgent proxyUrl of
             Inl e \<Rightarrow> (Inl e, s2)
           | Inr agent \<Rightarrow>
               (Inr (), s2\<lparr>globalFetch := Some (WrappedProxyFetch agent),
                           proxyInstalled := True, installedProxyUrl := Some proxyUrl\<rparr>))"

definition isProxyFetchInstalled :: "('f, 'a) proxy_state \<Rightarrow> bool" where
  "isProxyFetchInstalled s = proxyInstalled s"

definition getInstalledProxyUrl :: "('f, 'a) proxy_state \<Rightarrow> string option" where
  "getInstalledProxyUrl s = installedProxyUrl s"

text \<open>A call of the module from outside, and a sequence of such calls run in order
  (a call that throws is caught by the caller, and the next call follows).\<close>

datatype proxy_call = InstallProxyFetch string | UninstallProxyFetch

fun proxy_step ::
  "(string \<Rightarrow> error + 'a) \<Rightarrow> ('f, 'a) proxy_state \<Rightarrow> proxy_call \<Rightarrow> ('f, 'a) proxy_state" where
  "proxy_step ProxyAgent s (InstallProxyFetch u) = snd (installProxyFetch ProxyAgent u s)"
| "proxy_step ProxyAgent s UninstallProxyFetch = uninstallProxyFetch s"

definition run_calls ::
  "(string \<Rightarrow> error + 'a) \<Rightarrow> proxy_call list \<Rightarrow> ('f, 'a) proxy_state \<Rightarrow> ('f, 'a) proxy_state" where
  "run_calls ProxyAgent cs s = foldl (proxy_step ProxyAgent) s cs"

text \<open>Whether every \<open>ProxyAgent\<close> construction asked for by a sequence of calls succeeds.\<close>

definition constructions_succeed :: "(string \<Rightarrow> error + 'a) \<Rightarrow> proxy_call list \<Rightarrow> bool" where
  "constructions_succeed ProxyAgent cs =
     list_all (\<lambda>c. case c of InstallProxyFetch u \<Rightarrow> \<not> isl (ProxyAgent u) | UninstallProxyFetch \<Rightarrow> True) cs"

text \<open>
  The state invariant when a fetch \<open>f0\<close> was global before the first call, and the part
  of it that holds also without a global fetch.
\<close>

definition proxy_inv :: "('f, 'a) fetch_fn \<Rightarrow> ('f, 'a) proxy_state \<Rightarrow> bool" where
  "proxy_inv f0 s =
     ((proxyInstalled s \<longleftrightarrow> installedProxyUrl s \<noteq> None) \<and>
      (proxyInstalled s \<longrightarrow> originalFetch s = Some f0) \<and>
      (\<not> proxyInstalled s \<longrightarrow>
         globalFetch s = Some f0 \<and> (originalFetch s = None \<or> originalFetch s = Some f0)))"

definition url_inv :: "('f, 'a) proxy_state \<Rightarrow> bool" where
  "url_inv s = (proxyInstalled s \<longleftrightarrow> installedProxyUrl s \<noteq> None)"

text \<open>A constructor that behaves as undici's does on the empty string.\<close>

definition mandatory_uri_ProxyAgent :: "string \<Rightarrow> error + string" where
  "mandatory_uri_ProxyAgent u =
     (if u = [] then Inl (JsError ''InvalidArgumentError'' ''Proxy uri is mandatory'') else Inr u)"

section \<open>JavaScript values and helpers used by the PM2 adapter\<close>

text \<open>
  Strings are lists of code units below 256. \<open>a || b\<close> on strings takes \<open>b\<close> when
  \<open>a\<close> is empty; \<open>trim\<close> removes the white space of that range at both ends.
\<close>

definition js_or :: "string \<Rightarrow> string \<Rightarrow> string" where
  "js_or a b = (if a \<noteq> [] then a else b)"

definition is_white_space :: "char \<Rightarrow> bool" where
  "is_white_space c =
     (c = CHR 0x09 \<or> c = CHR 0x0A \<or> c = CHR 0x0B \<or> c = CHR 0x0C \<or> c = CHR 0x0D \<or>
      c = CHR 0x20 \<or> c = CHR 0xA0)"

definition trimEnd :: "string \<Rightarrow> string" where
  "trimEnd s = rev (dropWhile is_white_space (rev s))"

definition trim :: "string \<Rightarrow> string" where
  "trim s = trimEnd (dropWhile is_white_space s)"

definition newline :: string where
  "newline = [CHR 0x0A]"

text \<open>\<open>xs[i]\<close> on an array: \<open>None\<close> is \<open>undefined\<close>, the value out of range.\<close>

definition index :: "'a list \<Rightarrow> nat \<Rightarrow> 'a option" where
  "index xs i = (if i < length xs then Some (xs ! i) else None)"

text \<open>
  A value produced by \<open>JSON.parse\<close>. An object is the list of its entries, each key
  once; the numbers the adapter meets (pids, exit codes) are integers and are only
  carried along.
\<close>

datatype json =
    JNull
  | JBool bool
  | JNum int
  | JStr string
  | JArr "json list"
  | JObj "(string \<times> json) list"

text \<open>
  Reading a property \<open>v.key\<close>, for the keys the adapter reads (\<open>name\<close>, \<open>pm2_env\<close>,
  \<open>status\<close>, \<open>pid\<close>, \<open>exit_code\<close>: none of them is inherited from a prototype).
  On \<open>null\<close> and on \<open>undefined\<close> the read throws a TypeError; on an object it gives
  the entry or \<open>undefined\<close>; on any other value it gives \<open>undefined\<close>.
\<close>

definition get_prop :: "json \<Rightarrow> string \<Rightarrow> error + json option" where
  "get_prop v key =
     (case v of
        JNull \<Rightarrow> Inl (JsError ''TypeError'' (''Cannot read properties of null, reading '' @ key))
      | JObj entries \<Rightarrow> Inr (map_of entries key)
      | _ \<Rightarrow> Inr None)"

definition get_prop_opt :: "json option \<Rightarrow> string \<Rightarrow> error + json option" where
  "get_prop_opt v key =
     (case v of
        None \<Rightarrow> Inl (JsError ''TypeError'' (''Cannot read properties of undefined, reading '' @ key))
      | Some w \<Rightarrow> get_prop w key)"

text \<open>
  \<open>list.find((p) => p.name === serviceName)\<close>: on an array, the first element whose
  \<open>name\<close> is the string \<open>serviceName\<close>, or \<open>undefined\<close>; reading \<open>p.name\<close> of a
  \<open>null\<close> element met on the way throws. On a value that is not an array, \<open>find\<close> is
  not a function and the call throws.
\<close>

fun find_name :: "string \<Rightarrow> json list \<Rightarrow> error + json option" where
  "find_name serviceName [] = Inr None"
| "find_name serviceName (p # ps) =
     (case get_prop p ''name'' of
        Inl e \<Rightarrow> Inl e
      | Inr n \<Rightarrow> if n = Some (JStr serviceName) then Inr (Some p) else find_name serviceName ps)"

definition list_find :: "json \<Rightarrow> string \<Rightarrow> error + json option" where
  "list_find list serviceName =
     (case list of
        JArr ps \<Rightarrow> find_name serviceName ps
      | _ \<Rightarrow> Inl (JsError ''TypeError'' ''list.find is not a function''))"

section \<open>The environment of the service layer\<close>

text \<open>\<open>Record<string, string | undefined>\<close>: the process environment handed to an operation.\<close>

type_synonym env = "string \<rightharpoonup> string"

datatype runtime_status = running | stopped | unknown

text \<open>
  Modelled from the spec: the type \<open>GatewayServiceRuntime\<close> of service-runtime.ts is
  not among the sources. It is the shared RuntimeStatus shape: a status and the optional
  fields \<open>state\<close>, \<open>pid\<close>, \<open>lastExitStatus\<close>, \<open>missingUnit\<close>, \<open>detail\<close>
  (\<open>None\<close>: the field is absent or \<open>undefined\<close>). The PM2 adapter copies \<open>state\<close>,
  \<open>pid\<close> and \<open>lastExitStatus\<close> from the parsed process list as they are.
\<close>

record GatewayServiceRuntime =
  status :: runtime_status
  state :: "json option"
  pid :: "json option"
  lastExitStatus :: "json option"
  missingUnit :: "bool option"
  detail :: "string option"

text \<open>
  What one operation leaves behind, in order: a child process started through
  \<open>execFile(file, args)\<close> (an argument \<open>None\<close> is \<open>undefined\<close>), a chunk written to the
  \<open>stdout\<close> stream of the caller, a call of a function of systemd.ts.
\<close>

datatype systemd_call =
    SdAvailable | SdEnabled | SdUninstall | SdStop | SdRestart | SdReadRuntime

datatype event =
    Exec string "string option list"
  | Write string
  | Systemd systemd_call

text \<open>
  How \<open>execFileAsync\<close> settles: resolved with \<open>stdout\<close> and \<open>stderr\<close> (\<open>None\<close>:
  null or undefined), or rejected with a value \<open>e\<close>, of which \<open>execPm2\<close> reads
  \<open>e.stdout\<close>, \<open>e.stderr\<close>, \<open>e.message\<close> when they are strings and \<open>e.code\<close> when it
  is a number (\<open>None\<close> otherwise).
\<close>

datatype exec_outcome =
    Resolved "string option" "string option"
  | Rejected (e_stdout: "string option") (e_stderr: "string option")
             (e_message: "string option") (e_code: "int option")

record exec_result =
  stdout :: string
  stderr :: string
  code :: int

datatype theme_color = theme_muted | theme_command

text \<open>
  Everything the two source files call and do not define. Each effectful function
  answers from the events so far, so that an answer may change from one call to the next.
  \<^item> \<open>execFileAsync\<close>: Node's promisified \<open>execFile\<close>; \<open>JSON_parse\<close>: \<open>JSON.parse\<close>,
    which throws a SyntaxError on malformed text;
  \<^item> \<open>resolveGatewaySystemdServiceName\<close> (constants.ts), \<open>isRich\<close> and \<open>colorize\<close>
    (terminal/theme.ts);
  \<^item> the functions of systemd.ts. The two probes \<open>isSystemdUserServiceAvailable\<close> and
    \<open>isSystemdServiceEnabled\<close> answer yes or no, as the specification describes them
    (availability probes are cheap existence checks, \<open>isLoaded\<close> returns a bool) and as
    their PM2 siblings in the source do; the other functions return or throw.
\<close>

record externals =
  execFileAsync :: "event list \<Rightarrow> string \<Rightarrow> string option list \<Rightarrow> exec_outcome"
  JSON_parse :: "string \<Rightarrow> error + json"
  resolveGatewaySystemdServiceName :: "string option \<Rightarrow> string"
  isRich :: bool
  colorize :: "bool \<Rightarrow> theme_color \<Rightarrow> string \<Rightarrow> string"
  isSystemdUserServiceAvailable :: "event list \<Rightarrow> bool"
  isSystemdServiceEnabled :: "event list \<Rightarrow> env option \<Rightarrow> bool"
  uninstallSystemdService :: "event list \<Rightarrow> env \<Rightarrow> error + unit"
  stopSystemdService :: "event list \<Rightarrow> env option \<Rightarrow> error + unit"
  restartSystemdService :: "event list \<Rightarrow> env option \<Rightarrow> error + unit"
  readSystemdServiceRuntime :: "event list \<Rightarrow> env \<Rightarrow> error + GatewayServiceRuntime"

text \<open>A call of a function of systemd.ts: its answer, and the call added to the events.\<close>

definition systemd_available :: "externals \<Rightarrow> event list \<Rightarrow> bool \<times> event list" where
  "systemd_available X tr = (isSystemdUserServiceAvailable X tr, tr @ [Systemd SdAvailable])"

definition systemd_enabled :: "externals \<Rightarrow> env option \<Rightarrow> event list \<Rightarrow> bool \<times> event list" where
  "systemd_enabled X env tr = (isSystemdServiceEnabled X tr env, tr @ [Systemd SdEnabled])"

definition systemd_uninstall :: "externals \<Rightarrow> env \<Rightarrow> event list \<Rightarrow> (error + unit) \<times> event list" where
  "systemd_uninstall X env tr = (uninstallSystemdService X tr env, tr @ [Systemd SdUninstall])"

definition systemd_stop :: "externals \<Rightarrow> env option \<Rightarrow> event list \<Rightarrow> (error + unit) \<times> event list" where
  "systemd_stop X env tr = (stopSystemdService X tr env, tr @ [Systemd SdStop])"

definition systemd_restart :: "externals \<Rightarrow> env option \<Rightarrow> event list \<Rightarrow> (error + unit) \<times> event list" where
  "systemd_restart X env tr = (restartSystemdService X tr env, tr @ [Systemd SdRestart])"

definition systemd_readRuntime ::
  "externals \<Rightarrow> env \<Rightarrow> event list \<Rightarrow> (error + GatewayServiceRuntime) \<times> event list" where
  "systemd_readRuntime X env tr = (readSystemdServiceRuntime X tr env, tr @ [Systemd SdReadRuntime])"

section \<open>The PM2 adapter (pm2.ts)\<close>

definition formatLine :: "externals \<Rightarrow> string \<Rightarrow> string \<Rightarrow> string" where
  "formatLine X label_text value_text =
     (let rich = isRich X
      in colorize X rich theme_muted (label_text @ '':'') @ '' '' @
         colorize X rich theme_command value_text)"

text \<open>
  \<open>execPm2\<close> never throws: a rejection becomes a result, whose code is \<open>e.code\<close> when
  that is a number and 1 otherwise.
\<close>

definition execPm2 :: "externals \<Rightarrow> string option list \<Rightarrow> event list \<Rightarrow> exec_result \<times> event list" where
  "execPm2 X args tr =
     ((case execFileAsync X tr ''pm2'' args of
         Resolved out err \<Rightarrow>
           \<lparr>stdout = (case out of None \<Rightarrow> [] | Some t \<Rightarrow> t),
            stderr = (case err of None \<Rightarrow> [] | Some t \<Rightarrow> t),
            code = 0\<rparr>
       | Rejected out err msg c \<Rightarrow>
           \<lparr>stdout = (case out of Some t \<Rightarrow> t | None \<Rightarrow> []),
            stderr = (case err of Some t \<Rightarrow> t | None \<Rightarrow> (case msg of Some m \<Rightarrow> m | None \<Rightarrow> [])),
            code = (case c of Some n \<Rightarrow> n | None \<Rightarrow> 1)\<rparr>),
      tr @ [Exec ''pm2'' args])"

definition isPm2Available :: "externals \<Rightarrow> event list \<Rightarrow> bool \<times> event list" where
  "isPm2Available X tr =
     (case execPm2 X [Some ''--version''] tr of (res, tr1) \<Rightarrow> (code res = 0, tr1))"

definition assertPm2Available :: "externals \<Rightarrow> event list \<Rightarrow> (error + unit) \<times> event list" where
  "assertPm2Available X tr =
     (case isPm2Available X tr of
        (available, tr1) \<Rightarrow>
          if \<not> available
          then (Inl (JsError ''Error''
                  ''pm2 not available; please install it globally with `npm install -g pm2`''), tr1)
          else (Inr (), tr1))"

definition resolvePm2ServiceName :: "externals \<Rightarrow> env \<Rightarrow> string" where
  "resolvePm2ServiceName X env = resolveGatewaySystemdServiceName X (env ''CLAWDBOT_PROFILE'')"

definition installPm2Service ::
  "externals \<Rightarrow> env \<Rightarrow> string list \<Rightarrow> event list \<Rightarrow> (error + unit) \<times> event list" where
  "installPm2Service X env programArguments tr =
     (case assertPm2Available X tr of
        (Inl e, tr1) \<Rightarrow> (Inl e, tr1)
      | (Inr _, tr1) \<Rightarrow>
          let serviceName = resolvePm2ServiceName X env
          in case execPm2 X [Some ''delete'', Some serviceName] tr1 of
            (_, tr2) \<Rightarrow>
              let script = index programArguments 1;
                  args = drop 2 programArguments;
                  interpreter = index programArguments 0;
                  pm2Args = [Some ''start'', script, Some ''--name'', Some serviceName,
                             Some ''--interpreter'', interpreter, Some ''--''] @ map Some args
              in case execPm2 X pm2Args tr2 of
                (start, tr3) \<Rightarrow>
                  if code start \<noteq> 0
                  then (Inl (JsError ''Error''
                          (trim (''pm2 start failed: '' @ js_or (stderr start) (stdout start)))), tr3)
                  else case execPm2 X [Some ''save''] tr3 of
                    (save, tr4) \<Rightarrow>
                      if code save \<noteq> 0
                      then (Inl (JsError ''Error''
                              (trim (''pm2 save failed: '' @ js_or (stderr save) (stdout save)))), tr4)
                      else (Inr (),
                            tr4 @ [Write newline,
                                   Write (formatLine X ''Installed PM2 service'' serviceName @ newline)]))"

definition uninstallPm2Service ::
  "externals \<Rightarrow> env \<Rightarrow> event list \<Rightarrow> (error + unit) \<times> event list" where
  "uninstallPm2Service X env tr =
     (case assertPm2Available X tr of
        (Inl e, tr1) \<Rightarrow> (Inl e, tr1)
      | (Inr _, tr1) \<Rightarrow>
          let serviceName = resolvePm2ServiceName X env
          in case execPm2 X [Some ''delete'', Some serviceName] tr1 of
            (_, tr2) \<Rightarrow>
              case execPm2 X [Some ''save''] tr2 of
                (_, tr3) \<Rightarrow>
                  (Inr (), tr3 @ [Write (formatLine X ''Removed PM2 service'' serviceName @ newline)]))"

text \<open>\<open>env ?? {}\<close>\<close>

definition env_or_empty :: "env option \<Rightarrow> env" where
  "env_or_empty env = (case env of None \<Rightarrow> Map.empty | Some m \<Rightarrow> m)"

definition stopPm2Service ::
  "externals \<Rightarrow> env option \<Rightarrow> event list \<Rightarrow> (error + unit) \<times> event list" where
  "stopPm2Service X env tr =
     (case assertPm2Available X tr of
        (Inl e, tr1) \<Rightarrow> (Inl e, tr1)
      | (Inr _, tr1) \<Rightarrow>
          let serviceName = resolvePm2ServiceName X (env_or_empty env)
          in case execPm2 X [Some ''stop'', Some serviceName] tr1 of
            (_, tr2) \<Rightarrow>
              (Inr (), tr2 @ [Write (formatLine X ''Stopped PM2 service'' serviceName @ newline)]))"

definition restartPm2Service ::
  "externals \<Rightarrow> env option \<Rightarrow> event list \<Rightarrow> (error + unit) \<times> event list" where
  "restartPm2Service X env tr =
     (case assertPm2Available X tr of
        (Inl e, tr1) \<Rightarrow> (Inl e, tr1)
      | (Inr _, tr1) \<Rightarrow>
          let serviceName = resolvePm2ServiceName X (env_or_empty env)
          in case execPm2 X [Some ''restart'', Some serviceName] tr1 of
            (_, tr2) \<Rightarrow>
              (Inr (), tr2 @ [Write (formatLine X ''Restarted PM2 service'' serviceName @ newline)]))"

definition isPm2ServiceEnabled :: "externals \<Rightarrow> env option \<Rightarrow> event list \<Rightarrow> bool \<times> event list" where
  "isPm2ServiceEnabled X env tr =
     (case isPm2Available X tr of
        (available, tr1) \<Rightarrow>
          if \<not> available then (False, tr1)
          else
            let serviceName = resolvePm2ServiceName X (env_or_empty env)
            in case execPm2 X [Some ''describe'', Some serviceName] tr1 of
              (res, tr2) \<Rightarrow> (code res = 0, tr2))"

text \<open>
  The second \<open>try\<close> block of \<open>readPm2ServiceRuntime\<close>, with what it throws: the
  SyntaxError of \<open>JSON.parse\<close> and the TypeErrors of \<open>list.find\<close>, \<open>p.name\<close> and
  \<open>app.pm2_env.status\<close>.
\<close>

definition readPm2ServiceRuntime_try ::
  "externals \<Rightarrow> string \<Rightarrow> string \<Rightarrow> error + GatewayServiceRuntime" where
  "readPm2ServiceRuntime_try X serviceName out =
     (case JSON_parse X out of
        Inl e \<Rightarrow> Inl e
      | Inr list \<Rightarrow>
          (case list_find list serviceName of
             Inl e \<Rightarrow> Inl e
           | Inr None \<Rightarrow>
               Inr \<lparr>status = stopped, state = None, pid = None, lastExitStatus = None,
                    missingUnit = Some True, detail = None\<rparr>
           | Inr (Some app) \<Rightarrow>
               (case get_prop app ''pm2_env'' of
                  Inl e \<Rightarrow> Inl e
                | Inr pm2_env \<Rightarrow>
                    (case get_prop_opt pm2_env ''status'' of
                       Inl e \<Rightarrow> Inl e
                     | Inr native \<Rightarrow>
                         (case get_prop app ''pid'' of
                            Inl e \<Rightarrow> Inl e
                          | Inr app_pid \<Rightarrow>
                              (case get_prop_opt pm2_env ''exit_code'' of
                                 Inl e \<Rightarrow> Inl e
                               | Inr exit_code \<Rightarrow>
                                   Inr \<lparr>status = (if native = Some (JStr ''online'')
                                                   then running else stopped),
                                        state = native, pid = app_pid,
                                        lastExitStatus = exit_code,
                                        missingUnit = None, detail = None\<rparr>))))))"

definition readPm2ServiceRuntime ::
  "externals \<Rightarrow> env \<Rightarrow> event list \<Rightarrow> (error + GatewayServiceRuntime) \<times> event list" where
  "readPm2ServiceRuntime X env tr =
     (case assertPm2Available X tr of
        (Inl err, tr1) \<Rightarrow>
          (Inr \<lparr>status = unknown, state = None, pid = None, lastExitStatus = None,
                missingUnit = None, detail = Some (String_of_error err)\<rparr>, tr1)
      | (Inr _, tr1) \<Rightarrow>
          let serviceName = resolvePm2ServiceName X env
          in case execPm2 X [Some ''jlist''] tr1 of
            (res, tr2) \<Rightarrow>
              if code res \<noteq> 0
              then (Inr \<lparr>status = unknown, state = None, pid = None, lastExitStatus = None,
                         missingUnit = None,
                         detail = Some (js_or (stderr res) (stdout res))\<rparr>, tr2)
              else (case readPm2ServiceRuntime_try X serviceName (stdout res) of
                      Inr rt \<Rightarrow> (Inr rt, tr2)
                    | Inl _ \<Rightarrow>
                        (Inr \<lparr>status = unknown, state = None, pid = None, lastExitStatus = None,
                              missingUnit = None, detail = None\<rparr>, tr2)))"

section \<open>The service resolver (service.ts)\<close>

text \<open>
  The operations of a resolved service are closures; \<open>adapters\<close> names the set they
  belong to. The closures of the Linux set that the properties below are about are the
  functions \<open>linux_uninstall\<close>, \<open>linux_stop\<close>, \<open>linux_restart\<close>, \<open>linux_readRuntime\<close>.
\<close>

datatype adapter_set = LaunchAgent_adapters | Systemd_PM2_adapters | ScheduledTask_adapters

record GatewayService =
  label :: string
  loadedText :: string
  notLoadedText :: string
  adapters :: adapter_set

definition resolveGatewayService :: "string \<Rightarrow> error + GatewayService" where
  "resolveGatewayService platform =
     (if platform = ''darwin''
      then Inr \<lparr>label = ''LaunchAgent'', loadedText = ''loaded'', notLoadedText = ''not loaded'',
                adapters = LaunchAgent_adapters\<rparr>
      else if platform = ''linux''
      then Inr \<lparr>label = ''Systemd/PM2'', loadedText = ''active'', notLoadedText = ''inactive'',
                adapters = Systemd_PM2_adapters\<rparr>
      else if platform = ''win32''
      then Inr \<lparr>label = ''Scheduled Task'', loadedText = ''registered'', notLoadedText = ''missing'',
                adapters = ScheduledTask_adapters\<rparr>
      else Inl (JsError ''Error'' (''Gateway service install not supported on '' @ platform)))"

text \<open>\<open>uninstall\<close> of the Linux set: each \<open>try { ... } catch {}\<close> drops what the call throws.\<close>

definition linux_uninstall :: "externals \<Rightarrow> env \<Rightarrow> event list \<Rightarrow> (error + unit) \<times> event list" where
  "linux_uninstall X env tr =
     (case systemd_available X tr of
        (sd, tr1) \<Rightarrow>
          let tr2 = (if sd then snd (systemd_uninstall X env tr1) else tr1)
          in case isPm2Available X tr2 of
            (pm2, tr3) \<Rightarrow>
              let tr4 = (if pm2 then snd (uninstallPm2Service X env tr3) else tr3)
              in (Inr (), tr4))"

text \<open>\<open>a() && b()\<close> on two probes: \<open>b\<close> is not called when \<open>a\<close> answers no.\<close>

definition systemd_available_and_enabled ::
  "externals \<Rightarrow> env option \<Rightarrow> event list \<Rightarrow> bool \<times> event list" where
  "systemd_available_and_enabled X env tr =
     (case systemd_available X tr of
        (sd, tr1) \<Rightarrow> if sd then systemd_enabled X env tr1 else (False, tr1))"

definition pm2_available_and_enabled ::
  "externals \<Rightarrow> env option \<Rightarrow> event list \<Rightarrow> bool \<times> event list" where
  "pm2_available_and_enabled X env tr =
     (case isPm2Available X tr of
        (pm2, tr1) \<Rightarrow> if pm2 then isPm2ServiceEnabled X env tr1 else (False, tr1))"

definition linux_stop :: "externals \<Rightarrow> env option \<Rightarrow> event list \<Rightarrow> (error + unit) \<times> event list" where
  "linux_stop X env tr =
     (case systemd_available_and_enabled X env tr of
        (sd, tr1) \<Rightarrow>
          if sd then systemd_stop X env tr1
          else case pm2_available_and_enabled X env tr1 of
            (pm2, tr2) \<Rightarrow>
              if pm2 then stopPm2Service X env tr2
              else systemd_stop X env tr2)"

definition linux_restart :: "externals \<Rightarrow> env option \<Rightarrow> event list \<Rightarrow> (error + unit) \<times> event list" where
  "linux_restart X env tr =
     (case systemd_available_and_enabled X env tr of
        (sd, tr1) \<Rightarrow>
          if sd then systemd_restart X env tr1
          else case pm2_available_and_enabled X env tr1 of
            (pm2, tr2) \<Rightarrow>
              if pm2 then restartPm2Service X env tr2
              else case systemd_available X tr2 of
                (sd_again, tr3) \<Rightarrow>
                  if sd_again then systemd_restart X env tr3
                  else case isPm2Available X tr3 of
                    (pm2_again, tr4) \<Rightarrow>
                      if pm2_again then restartPm2Service X env tr4
                      else systemd_restart X env tr4)"

text \<open>
  \<open>readRuntime\<close> of the Linux set. \<open>linux_readRuntime_pm2\<close> is the function from its
  second \<open>if\<close> on, reached when systemd-user is unavailable or reports
  \<open>missingUnit\<close> (\<open>!rt.missingUnit\<close> holds when the field is absent or false).
\<close>

definition linux_readRuntime_pm2 ::
  "externals \<Rightarrow> env \<Rightarrow> event list \<Rightarrow> (error + GatewayServiceRuntime) \<times> event list" where
  "linux_readRuntime_pm2 X env tr =
     (case isPm2Available X tr of
        (pm2, tr1) \<Rightarrow>
          if pm2 then readPm2ServiceRuntime X env tr1
          else (Inr \<lparr>status = unknown, state = None, pid = None, lastExitStatus = None,
                     missingUnit = None, detail = Some ''Systemd/PM2 unavailable''\<rparr>, tr1))"

definition linux_readRuntime ::
  "externals \<Rightarrow> env \<Rightarrow> event list \<Rightarrow> (error + GatewayServiceRuntime) \<times> event list" where
  "linux_readRuntime X env tr =
     (case systemd_available X tr of
        (sd, tr1) \<Rightarrow>
          if sd
          then (case systemd_readRuntime X env tr1 of
                  (Inl e, tr2) \<Rightarrow> (Inl e, tr2)
                | (Inr rt, tr2) \<Rightarrow>
                    if missingUnit rt \<noteq> Some True then (Inr rt, tr2)
                    else linux_readRuntime_pm2 X env tr2)
          else linux_readRuntime_pm2 X env tr1)"

section \<open>Reading the events; the precedence the specification gives\<close>

datatype backend = SystemdUser | PM2

datatype operation = Stop | Restart

text \<open>The stop or restart primitive of a backend that an event invokes, if it invokes one.\<close>

fun invoked :: "event \<Rightarrow> (backend \<times> operation) option" where
  "invoked (Systemd SdStop) = Some (SystemdUser, Stop)"
| "invoked (Systemd SdRestart) = Some (SystemdUser, Restart)"
| "invoked (Exec file (Some command # _)) =
     (if file = ''pm2'' \<and> command = ''stop'' then Some (PM2, Stop)
      else if file = ''pm2'' \<and> command = ''restart'' then Some (PM2, Restart)
      else None)"
| "invoked _ = None"

definition invocations :: "event list \<Rightarrow> (backend \<times> operation) list" where
  "invocations tr = List.map_filter invoked tr"

text \<open>
  The precedence for \<open>stop\<close> and \<open>restart\<close> in the words of the specification:
  systemd-user when available and enabled, otherwise PM2 when available and enabled,
  otherwise systemd-user forced.
\<close>

definition spec_precedence :: "bool \<Rightarrow> bool \<Rightarrow> bool \<Rightarrow> bool \<Rightarrow> backend" where
  "spec_precedence sd_available sd_enabled pm2_available pm2_enabled =
     (if sd_available \<and> sd_enabled then SystemdUser
      else if pm2_available \<and> pm2_enabled then PM2
      else SystemdUser)"

text \<open>
  A host whose probes answer the same at every moment of an operation: whether
  systemd-user and PM2 are available, and whether each reports the service enabled
  (for PM2: \<open>pm2 describe\<close> of the service exits with 0).
\<close>

definition steady_availability :: "externals \<Rightarrow> bool \<Rightarrow> bool \<Rightarrow> bool" where
  "steady_availability X sd_available pm2_available =
     (\<forall>h. isSystemdUserServiceAvailable X h = sd_available \<and>
          fst (isPm2Available X h) = pm2_available)"

definition steady_enabled :: "externals \<Rightarrow> env option \<Rightarrow> bool \<Rightarrow> bool \<Rightarrow> bool" where
  "steady_enabled X env sd_enabled pm2_enabled =
     (\<forall>h. isSystemdServiceEnabled X h env = sd_enabled \<and>
          (code (fst (execPm2 X [Some ''describe'',
                                 Some (resolvePm2ServiceName X (env_or_empty env))] h)) = 0)
            = pm2_enabled)"

text \<open>
  The command line \<open>pm2 start <script> --name <svc> --interpreter <interpreter> -- <args...>\<close>
  in the words of the specification, as the arguments handed to \<open>pm2\<close>.
\<close>

definition spec_start_command :: "string \<Rightarrow> string \<Rightarrow> string \<Rightarrow> string list \<Rightarrow> string option list" where
  "spec_start_command svc interpreter script args =
     map Some ([''start'', script, ''--name'', svc, ''--interpreter'', interpreter, ''--''] @ args)"

text \<open>
  What \<open>pm2 jlist\<close> gives to \<open>readPm2ServiceRuntime\<close> called after the events \<open>tr\<close>,
  and the case the status mapping is about: \<open>pm2\<close> is available, \<open>jlist\<close> exits with
  0 and its output parses to a list of process objects.
\<close>

definition jlist_result :: "externals \<Rightarrow> event list \<Rightarrow> exec_result" where
  "jlist_result X tr = fst (execPm2 X [Some ''jlist''] (tr @ [Exec ''pm2'' [Some ''--version'']]))"

definition jlist_gives :: "externals \<Rightarrow> event list \<Rightarrow> (string \<times> json) list list \<Rightarrow> bool" where
  "jlist_gives X tr procs =
     (fst (isPm2Available X tr) \<and> code (jlist_result X tr) = 0 \<and>
      JSON_parse X (stdout (jlist_result X tr)) = Inr (JArr (map JObj procs)))"

section \<open>Example hosts\<close>

text \<open>
  A host is given by the answers of systemd-user (available, enabled, the runtime it
  reports) and by what each \<open>pm2\<close> command line does; nothing on it changes over time.
\<close>

definition example_name :: "string option \<Rightarrow> string" where
  "example_name profile =
     (case profile of None \<Rightarrow> ''gateway'' | Some p \<Rightarrow> ''gateway-'' @ p)"

text \<open>
  The texts \<open>pm2 jlist\<close> prints on the example hosts, and their parse: a list with
  the service online, the empty list, a list whose entry for the service has no
  \<open>pm2_env\<close>. Any other text is malformed.
\<close>

definition example_jlist :: string where
  "example_jlist = ''[gateway online 123 0]''"

definition example_jlist_partial :: string where
  "example_jlist_partial = ''[gateway 123]''"

definition example_parse :: "string \<Rightarrow> error + json" where
  "example_parse text =
     (if text = example_jlist
      then Inr (JArr [JObj [(''name'', JStr ''gateway''),
                            (''pm2_env'', JObj [(''status'', JStr ''online''), (''exit_code'', JNum 0)]),
                            (''pid'', JNum 123)]])
      else if text = ''[]'' then Inr (JArr [])
      else if text = example_jlist_partial
      then Inr (JArr [JObj [(''name'', JStr ''gateway''), (''pid'', JNum 123)]])
      else Inl (JsError ''SyntaxError'' ''Unexpected token''))"

definition missing_unit :: GatewayServiceRuntime where
  "missing_unit =
     \<lparr>status = stopped, state = None, pid = None, lastExitStatus = None,
      missingUnit = Some True, detail = None\<rparr>"

definition example_host ::
  "bool \<Rightarrow> bool \<Rightarrow> GatewayServiceRuntime \<Rightarrow> (string option list \<Rightarrow> exec_outcome) \<Rightarrow> externals" where
  "example_host sd_available sd_enabled sd_runtime pm2 =
     \<lparr>execFileAsync = (\<lambda>h file args. pm2 args),
      JSON_parse = example_parse,
      resolveGatewaySystemdServiceName = example_name,
      isRich = False,
      colorize = (\<lambda>rich color text. text),
      isSystemdUserServiceAvailable = (\<lambda>h. sd_available),
      isSystemdServiceEnabled = (\<lambda>h env. sd_enabled),
      uninstallSystemdService = (\<lambda>h env. Inr ()),
      stopSystemdService = (\<lambda>h env. Inr ()),
      restartSystemdService = (\<lambda>h env. Inr ()),
      readSystemdServiceRuntime = (\<lambda>h env. Inr sd_runtime)\<rparr>"

text \<open>\<open>pm2\<close> is not installed: spawning it fails, and the rejection has no numeric code.\<close>

definition pm2_absent :: "string option list \<Rightarrow> exec_outcome" where
  "pm2_absent args = Rejected None None (Some ''spawn pm2 ENOENT'') None"

text \<open>\<open>pm2\<close> is installed and knows no process: only \<open>--version\<close>, \<open>jlist\<close> and \<open>save\<close>
  exit with 0.\<close>

definition pm2_idle :: "string option list \<Rightarrow> exec_outcome" where
  "pm2_idle args =
     (if args = [Some ''--version''] then Resolved (Some ''5.3.0'') (Some [])
      else if args = [Some ''jlist''] then Resolved (Some ''[]'') (Some [])
      else if args = [Some ''save''] then Resolved (Some []) (Some [])
      else Rejected (Some []) (Some ''[PM2][ERROR] Process or Namespace gateway not found'')
                    (Some ''Command failed'') (Some 1))"

text \<open>\<open>pm2\<close> is installed, every command exits with 0, and \<open>jlist\<close> prints \<open>text\<close>.\<close>

definition pm2_prints :: "string \<Rightarrow> string option list \<Rightarrow> exec_outcome" where
  "pm2_prints text args =
     (if args = [Some ''jlist''] then Resolved (Some text) (Some [])
      else Resolved (Some []) (Some []))"

text \<open>\<open>pm2\<close> is installed, and the command \<open>command\<close> exits with 1 after a line on stderr.\<close>

definition pm2_fails_at :: "string \<Rightarrow> string option list \<Rightarrow> exec_outcome" where
  "pm2_fails_at command args =
     (case args of
        Some c # _ \<Rightarrow>
          if c = command
          then Rejected (Some []) (Some (''[PM2][ERROR] '' @ command @ '' failed'' @ newline))
                        (Some ''Command failed'') (Some 1)
          else Resolved (Some []) (Some [])
      | _ \<Rightarrow> Resolved (Some []) (Some []))"

text \<open>\<open>pm2\<close> is installed, and the command \<open>command\<close> exits with 1 after a line on
  stdout, with nothing on stderr.\<close>

definition pm2_fails_on_stdout_at :: "string \<Rightarrow> string option list \<Rightarrow> exec_outcome" where
  "pm2_fails_on_stdout_at command args =
     (case args of
        Some c # _ \<Rightarrow>
          if c = command
          then Rejected (Some (''[PM2][ERROR] '' @ command @ '' refused'' @ newline)) (Some [])
                        (Some ''Command failed'') (Some 1)
          else Resolved (Some []) (Some [])
      | _ \<Rightarrow> Resolved (Some []) (Some []))"

text \<open>A host with systemd-user and the service enabled there, whose \<open>systemctl\<close> calls
  for uninstall, stop and restart all fail.\<close>

definition example_host_systemd_failing :: "(string option list \<Rightarrow> exec_outcome) \<Rightarrow> externals" where
  "example_host_systemd_failing pm2 =
     (example_host True True missing_unit pm2)
       \<lparr>uninstallSystemdService := (\<lambda>h env. Inl (JsError ''Error'' ''systemctl disable failed'')),
        stopSystemdService := (\<lambda>h env. Inl (JsError ''Error'' ''systemctl stop failed'')),
        restartSystemdService := (\<lambda>h env. Inl (JsError ''Error'' ''systemctl restart failed''))\<rparr>"

text \<open>What systemd-user reports for a unit that runs.\<close>

definition active_unit :: GatewayServiceRuntime where
  "active_unit =
     \<lparr>status = running, state = Some (JStr ''active''), pid = Some (JNum 4711),
      lastExitStatus = None, missingUnit = None, detail = None\<rparr>"

definition no_env :: env where
  "no_env = Map.empty"

section \<open>Properties of the proxy-fetch module\<close>

lemma proxy_inv_initial: "proxy_inv f0 (initial_state (Some f0))"
  by (simp add: proxy_inv_def initial_state_def)

lemma proxy_inv_uninstall: "proxy_inv f0 s \<Longrightarrow> proxy_inv f0 (uninstallProxyFetch s)"
  by (auto simp: proxy_inv_def uninstallProxyFetch_def split: option.splits)

lemma proxy_inv_install:
  "proxy_inv f0 s \<Longrightarrow> proxy_inv f0 (snd (installProxyFetch ProxyAgent u s))"
  by (auto simp: proxy_inv_def installProxyFetch_def uninstallProxyFetch_def Let_def
           split: option.splits sum.splits)

lemma proxy_inv_step: "proxy_inv f0 s \<Longrightarrow> proxy_inv f0 (proxy_step ProxyAgent s c)"
  by (cases c) (simp_all add: proxy_inv_install proxy_inv_uninstall)

lemma proxy_inv_foldl:
  "proxy_inv f0 s \<Longrightarrow> proxy_inv f0 (foldl (proxy_step ProxyAgent) s cs)"
  by (induction cs arbitrary: s) (simp_all add: proxy_inv_step)

lemma proxy_inv_run: "proxy_inv f0 (run_calls ProxyAgent cs (initial_state (Some f0)))"
  unfolding run_calls_def by (rule proxy_inv_foldl [OF proxy_inv_initial])

lemma url_inv_step: "url_inv s \<Longrightarrow> url_inv (proxy_step ProxyAgent s c)"
  by (cases c)
     (auto simp: url_inv_def installProxyFetch_def uninstallProxyFetch_def Let_def
           split: option.splits sum.splits)

lemma url_inv_foldl: "url_inv s \<Longrightarrow> url_inv (foldl (proxy_step ProxyAgent) s cs)"
  by (induction cs arbitrary: s) (simp_all add: url_inv_step)

lemma url_inv_run: "url_inv (run_calls ProxyAgent cs (initial_state g))"
  unfolding run_calls_def by (rule url_inv_foldl) (simp add: url_inv_def initial_state_def)

lemma no_stale_original_step:
  "constructions_succeed ProxyAgent [c] \<Longrightarrow> (originalFetch s \<noteq> None \<longrightarrow> proxyInstalled s)
   \<Longrightarrow> (originalFetch (proxy_step ProxyAgent s c) \<noteq> None \<longrightarrow> proxyInstalled (proxy_step ProxyAgent s c))"
  by (cases c)
     (auto simp: constructions_succeed_def installProxyFetch_def uninstallProxyFetch_def Let_def
           split: option.splits sum.splits)

lemma no_stale_original_foldl:
  "constructions_succeed ProxyAgent cs \<Longrightarrow> (originalFetch s \<noteq> None \<longrightarrow> proxyInstalled s)
   \<Longrightarrow> (originalFetch (foldl (proxy_step ProxyAgent) s cs) \<noteq> None
        \<longrightarrow> proxyInstalled (foldl (proxy_step ProxyAgent) s cs))"
proof (induction cs arbitrary: s)
  case Nil
  then show ?case by simp
next
  case (Cons c cs)
  from Cons.prems(1) have c: "constructions_succeed ProxyAgent [c]"
    and cs: "constructions_succeed ProxyAgent cs"
    by (simp_all add: constructions_succeed_def)
  from no_stale_original_step [OF c Cons.prems(2)]
  have "originalFetch (proxy_step ProxyAgent s c) \<noteq> None \<longrightarrow> proxyInstalled (proxy_step ProxyAgent s c)" .
  from Cons.IH [OF cs this] show ?case by simp
qed

text \<open>
  C9, as amended. In every state \<open>t\<close>, installing the URL that is installed already
  changes nothing, neither the global fetch nor the recorded state. In a state \<open>s\<close>
  the module reaches by calls of \<open>installProxyFetch\<close> and \<open>uninstallProxyFetch\<close> from
  an initial state that has a global fetch \<open>f0\<close>: installing a URL while nothing is
  installed saves \<open>f0\<close> and puts the proxy fetch of the new agent in its place;
  installing another URL than the installed one first tears the installation down
  (back to the initial state) and then installs from there, so that the saved fetch is
  \<open>f0\<close> again and not the previous proxy; and after \<open>uninstallProxyFetch\<close> the global
  fetch is \<open>f0\<close>, nothing is installed and \<open>getInstalledProxyUrl\<close> gives \<open>undefined\<close>.
\<close>

theorem proxy_fetch_lifecycle:
  fixes ProxyAgent :: "string \<Rightarrow> error + 'a" and f0 :: "('f, 'a) fetch_fn"
  shows "(isProxyFetchInstalled t \<and> getInstalledProxyUrl t = Some u
            \<longrightarrow> installProxyFetch ProxyAgent u t = (Inr (), t)) \<and>
         (s = run_calls ProxyAgent cs (initial_state (Some f0)) \<longrightarrow>
            (\<not> isProxyFetchInstalled s \<and> ProxyAgent v = Inr a
               \<longrightarrow> installProxyFetch ProxyAgent v s
                     = (Inr (), \<lparr>globalFetch = Some (WrappedProxyFetch a),
                                 originalFetch = Some f0, proxyInstalled = True,
                                 installedProxyUrl = Some v\<rparr>)) \<and>
            (isProxyFetchInstalled s \<and> getInstalledProxyUrl s \<noteq> Some v
               \<longrightarrow> uninstallProxyFetch s = initial_state (Some f0) \<and>
                   installProxyFetch ProxyAgent v s
                     = installProxyFetch ProxyAgent v (uninstallProxyFetch s) \<and>
                   (ProxyAgent v = Inr a
                      \<longrightarrow> installProxyFetch ProxyAgent v s
                            = (Inr (), \<lparr>globalFetch = Some (WrappedProxyFetch a),
                                        originalFetch = Some f0, proxyInstalled = True,
                                        installedProxyUrl = Some v\<rparr>))) \<and>
            globalFetch (uninstallProxyFetch s) = Some f0 \<and>
            \<not> isProxyFetchInstalled (uninstallProxyFetch s) \<and>
            getInstalledProxyUrl (uninstallProxyFetch s) = None)"
proof (intro conjI impI)
  assume "isProxyFetchInstalled t \<and> getInstalledProxyUrl t = Some u"
  then show "installProxyFetch ProxyAgent u t = (Inr (), t)"
    by (simp add: isProxyFetchInstalled_def getInstalledProxyUrl_def installProxyFetch_def)
next
  assume s: "s = run_calls ProxyAgent cs (initial_state (Some f0))"
  have inv: "proxy_inv f0 s" unfolding s by (rule proxy_inv_run)
  {
    assume "\<not> isProxyFetchInstalled s \<and> ProxyAgent v = Inr a"
    with inv show "installProxyFetch ProxyAgent v s
        = (Inr (), \<lparr>globalFetch = Some (WrappedProxyFetch a), originalFetch = Some f0,
                    proxyInstalled = True, installedProxyUrl = Some v\<rparr>)"
      by (cases s)
         (auto simp: proxy_inv_def isProxyFetchInstalled_def installProxyFetch_def Let_def)
  next
    assume a: "isProxyFetchInstalled s \<and> getInstalledProxyUrl s \<noteq> Some v"
    with inv show u: "uninstallProxyFetch s = initial_state (Some f0)"
      by (cases s)
         (auto simp: proxy_inv_def isProxyFetchInstalled_def uninstallProxyFetch_def
                     initial_state_def)
    from a show "installProxyFetch ProxyAgent v s
        = installProxyFetch ProxyAgent v (uninstallProxyFetch s)"
      by (auto simp: isProxyFetchInstalled_def getInstalledProxyUrl_def installProxyFetch_def
                     uninstallProxyFetch_def Let_def
               split: option.splits sum.splits)
    {
      assume "ProxyAgent v = Inr a"
      with a u show "installProxyFetch ProxyAgent v s
          = (Inr (), \<lparr>globalFetch = Some (WrappedProxyFetch a), originalFetch = Some f0,
                      proxyInstalled = True, installedProxyUrl = Some v\<rparr>)"
        by (simp add: isProxyFetchInstalled_def getInstalledProxyUrl_def installProxyFetch_def
                      initial_state_def Let_def)
    }
  next
    from inv show "globalFetch (uninstallProxyFetch s) = Some f0"
      by (auto simp: proxy_inv_def uninstallProxyFetch_def split: option.splits)
  next
    from inv show "\<not> isProxyFetchInstalled (uninstallProxyFetch s)"
      by (auto simp: proxy_inv_def isProxyFetchInstalled_def uninstallProxyFetch_def
               split: option.splits)
  next
    from inv show "getInstalledProxyUrl (uninstallProxyFetch s) = None"
      by (auto simp: proxy_inv_def getInstalledProxyUrl_def uninstallProxyFetch_def
               split: option.splits)
  }
qed

theorem proxy_fetch_lifecycle_witness:
  "run_calls mandatory_uri_ProxyAgent [InstallProxyFetch ''http://127.0.0.1:7890'']
     (initial_state (Some (HostFetch (0::nat))))
     = \<lparr>globalFetch = Some (WrappedProxyFetch ''http://127.0.0.1:7890''),
        originalFetch = Some (HostFetch 0), proxyInstalled = True,
        installedProxyUrl = Some ''http://127.0.0.1:7890''\<rparr> \<and>
   installProxyFetch mandatory_uri_ProxyAgent ''http://127.0.0.1:7890''
     \<lparr>globalFetch = Some (WrappedProxyFetch ''http://127.0.0.1:7890''),
      originalFetch = Some (HostFetch (0::nat)), proxyInstalled = True,
      installedProxyUrl = Some ''http://127.0.0.1:7890''\<rparr>
     = (Inr (), \<lparr>globalFetch = Some (WrappedProxyFetch ''http://127.0.0.1:7890''),
                 originalFetch = Some (HostFetch 0), proxyInstalled = True,
                 installedProxyUrl = Some ''http://127.0.0.1:7890''\<rparr>) \<and>
   installProxyFetch mandatory_uri_ProxyAgent ''http://10.0.0.1:3128''
     \<lparr>globalFetch = Some (WrappedProxyFetch ''http://127.0.0.1:7890''),
      originalFetch = Some (HostFetch (0::nat)), proxyInstalled = True,
      installedProxyUrl = Some ''http://127.0.0.1:7890''\<rparr>
     = (Inr (), \<lparr>globalFetch = Some (WrappedProxyFetch ''http://10.0.0.1:3128''),
                 originalFetch = Some (HostFetch 0), proxyInstalled = True,
                 installedProxyUrl = Some ''http://10.0.0.1:3128''\<rparr>) \<and>
   uninstallProxyFetch
     \<lparr>globalFetch = Some (WrappedProxyFetch ''http://127.0.0.1:7890''),
      originalFetch = Some (HostFetch (0::nat)), proxyInstalled = True,
      installedProxyUrl = Some ''http://127.0.0.1:7890''\<rparr>
     = initial_state (Some (HostFetch 0)) \<and>
   installProxyFetch mandatory_uri_ProxyAgent ''http://127.0.0.1:7890''
     (run_calls mandatory_uri_ProxyAgent [] (initial_state (Some (HostFetch (0::nat)))))
     = (Inr (), \<lparr>globalFetch = Some (WrappedProxyFetch ''http://127.0.0.1:7890''),
                 originalFetch = Some (HostFetch 0), proxyInstalled = True,
                 installedProxyUrl = Some ''http://127.0.0.1:7890''\<rparr>)"
  using proxy_fetch_lifecycle
          [of "\<lparr>globalFetch = Some (WrappedProxyFetch ''http://127.0.0.1:7890''),
                originalFetch = Some (HostFetch (0::nat)), proxyInstalled = True,
                installedProxyUrl = Some ''http://127.0.0.1:7890''\<rparr>"
              "''http://127.0.0.1:7890''" mandatory_uri_ProxyAgent
              "\<lparr>globalFetch = Some (WrappedProxyFetch ''http://127.0.0.1:7890''),
                originalFetch = Some (HostFetch (0::nat)), proxyInstalled = True,
                installedProxyUrl = Some ''http://127.0.0.1:7890''\<rparr>"
              "[InstallProxyFetch ''http://127.0.0.1:7890'']" "HostFetch 0"
              "''http://10.0.0.1:3128''" "''http://10.0.0.1:3128''"]
        proxy_fetch_lifecycle
          [of "initial_state (Some (HostFetch (0::nat)))" "''http://127.0.0.1:7890''"
              mandatory_uri_ProxyAgent
              "run_calls mandatory_uri_ProxyAgent [] (initial_state (Some (HostFetch (0::nat))))"
              "[]" "HostFetch 0" "''http://127.0.0.1:7890''" "''http://127.0.0.1:7890''"]
  by (simp add: run_calls_def installProxyFetch_def uninstallProxyFetch_def initial_state_def
                mandatory_uri_ProxyAgent_def isProxyFetchInstalled_def getInstalledProxyUrl_def)

text \<open>
  C9 as stated fails where no global fetch exists: \<open>installProxyFetch\<close> then saves
  \<open>undefined\<close>, \<open>uninstallProxyFetch\<close> returns at its \<open>!originalFetch\<close> guard, and the
  proxy stays installed with its URL recorded.
\<close>

theorem proxy_uninstall_counterexample:
  "isProxyFetchInstalled
     (uninstallProxyFetch
        (run_calls mandatory_uri_ProxyAgent [InstallProxyFetch ''http://127.0.0.1:7890'']
           (initial_state (None :: (nat, string) fetch_fn option)))) \<and>
   getInstalledProxyUrl
     (uninstallProxyFetch
        (run_calls mandatory_uri_ProxyAgent [InstallProxyFetch ''http://127.0.0.1:7890'']
           (initial_state (None :: (nat, string) fetch_fn option)))) \<noteq> None"
  by (simp add: run_calls_def installProxyFetch_def uninstallProxyFetch_def initial_state_def
                mandatory_uri_ProxyAgent_def isProxyFetchInstalled_def getInstalledProxyUrl_def)

text \<open>
  C10, as amended. After any sequence of calls from an initial state, with or without a
  global fetch, \<open>proxyInstalled\<close> holds exactly when \<open>installedProxyUrl\<close> is defined,
  so \<open>isProxyFetchInstalled\<close> answers true exactly when \<open>getInstalledProxyUrl\<close> gives
  a URL. While a proxy is installed \<open>originalFetch\<close> is saved, provided a global
  fetch existed initially. A saved \<open>originalFetch\<close> means that a proxy is installed,
  provided no \<open>ProxyAgent\<close> construction of the sequence has thrown.
\<close>

theorem proxy_state_invariant:
  fixes ProxyAgent :: "string \<Rightarrow> error + 'a" and g0 :: "('f, 'a) fetch_fn option"
  assumes s: "s = run_calls ProxyAgent cs (initial_state g0)"
  shows "(proxyInstalled s \<longleftrightarrow> installedProxyUrl s \<noteq> None) \<and>
         (isProxyFetchInstalled s \<longleftrightarrow> getInstalledProxyUrl s \<noteq> None) \<and>
         (g0 \<noteq> None \<longrightarrow> proxyInstalled s \<longrightarrow> originalFetch s \<noteq> None) \<and>
         (constructions_succeed ProxyAgent cs \<longrightarrow> originalFetch s \<noteq> None \<longrightarrow> proxyInstalled s)"
proof -
  have u: "url_inv s" unfolding s by (rule url_inv_run)
  have p: "g0 \<noteq> None \<Longrightarrow> proxyInstalled s \<longrightarrow> originalFetch s \<noteq> None"
  proof -
    assume "g0 \<noteq> None"
    then obtain f0 where "g0 = Some f0" by auto
    then have "proxy_inv f0 s" unfolding s by (simp add: proxy_inv_run)
    then show ?thesis by (simp add: proxy_inv_def)
  qed
  have c: "constructions_succeed ProxyAgent cs \<Longrightarrow> originalFetch s \<noteq> None \<longrightarrow> proxyInstalled s"
    unfolding s run_calls_def
    by (rule no_stale_original_foldl) (simp_all add: initial_state_def)
  from u p c show ?thesis
    by (auto simp: url_inv_def isProxyFetchInstalled_def getInstalledProxyUrl_def)
qed

theorem proxy_state_invariant_witness:
  "constructions_succeed mandatory_uri_ProxyAgent
     [InstallProxyFetch ''http://127.0.0.1:7890'', UninstallProxyFetch,
      InstallProxyFetch ''http://10.0.0.1:3128''] \<and>
   run_calls mandatory_uri_ProxyAgent
     [InstallProxyFetch ''http://127.0.0.1:7890'', UninstallProxyFetch,
      InstallProxyFetch ''http://10.0.0.1:3128''] (initial_state (Some (HostFetch (0::nat))))
     = \<lparr>globalFetch = Some (WrappedProxyFetch ''http://10.0.0.1:3128''),
        originalFetch = Some (HostFetch 0), proxyInstalled = True,
        installedProxyUrl = Some ''http://10.0.0.1:3128''\<rparr>"
  using proxy_state_invariant
          [of "run_calls mandatory_uri_ProxyAgent
                 [InstallProxyFetch ''http://127.0.0.1:7890'', UninstallProxyFetch,
                  InstallProxyFetch ''http://10.0.0.1:3128'']
                 (initial_state (Some (HostFetch (0::nat))))"
              mandatory_uri_ProxyAgent
              "[InstallProxyFetch ''http://127.0.0.1:7890'', UninstallProxyFetch,
                InstallProxyFetch ''http://10.0.0.1:3128'']" "Some (HostFetch 0)"]
  by (simp add: run_calls_def installProxyFetch_def uninstallProxyFetch_def initial_state_def
                mandatory_uri_ProxyAgent_def constructions_succeed_def)

text \<open>
  C10 as stated fails in both directions. \<open>installProxyFetch("")\<close> in an initial state
  with a global fetch saves \<open>originalFetch\<close>, then the construction of the agent
  throws, and nothing is installed. And an install in an initial state without a global
  fetch leaves a proxy installed with \<open>originalFetch\<close> undefined.
\<close>

theorem proxy_state_equivalence_counterexample:
  "\<not> (originalFetch
        (run_calls mandatory_uri_ProxyAgent [InstallProxyFetch []]
           (initial_state (Some (HostFetch (0::nat))))) \<noteq> None
      \<longrightarrow> proxyInstalled
        (run_calls mandatory_uri_ProxyAgent [InstallProxyFetch []]
           (initial_state (Some (HostFetch (0::nat)))))) \<and>
   \<not> (proxyInstalled
        (run_calls mandatory_uri_ProxyAgent [InstallProxyFetch ''http://127.0.0.1:7890'']
           (initial_state (None :: (nat, string) fetch_fn option)))
      \<longrightarrow> originalFetch
        (run_calls mandatory_uri_ProxyAgent [InstallProxyFetch ''http://127.0.0.1:7890'']
           (initial_state (None :: (nat, string) fetch_fn option))) \<noteq> None)"
  by (simp add: run_calls_def installProxyFetch_def initial_state_def mandatory_uri_ProxyAgent_def)

section \<open>Properties of the service resolver and the PM2 adapter\<close>

text \<open>
  C4. \<open>resolveGatewayService\<close> gives the adapter set of the platform with its fixed
  label on darwin, linux and win32, and on every other platform it throws an error
  whose message names the platform.
\<close>

theorem resolveGatewayService_labels:
  "resolveGatewayService ''darwin''
     = Inr \<lparr>label = ''LaunchAgent'', loadedText = ''loaded'', notLoadedText = ''not loaded'',
            adapters = LaunchAgent_adapters\<rparr> \<and>
   resolveGatewayService ''linux''
     = Inr \<lparr>label = ''Systemd/PM2'', loadedText = ''active'', notLoadedText = ''inactive'',
            adapters = Systemd_PM2_adapters\<rparr> \<and>
   resolveGatewayService ''win32''
     = Inr \<lparr>label = ''Scheduled Task'', loadedText = ''registered'', notLoadedText = ''missing'',
            adapters = ScheduledTask_adapters\<rparr> \<and>
   (P \<noteq> ''darwin'' \<and> P \<noteq> ''linux'' \<and> P \<noteq> ''win32''
      \<longrightarrow> resolveGatewayService P
            = Inl (JsError ''Error'' (''Gateway service install not supported on '' @ P))) \<and>
   (isl (resolveGatewayService P) \<longleftrightarrow> P \<noteq> ''darwin'' \<and> P \<noteq> ''linux'' \<and> P \<noteq> ''win32'')"
  by (simp add: resolveGatewayService_def)

theorem resolveGatewayService_labels_witness:
  "resolveGatewayService ''freebsd''
     = Inl (JsError ''Error'' ''Gateway service install not supported on freebsd'')"
  using resolveGatewayService_labels [of "''freebsd''"] by simp

lemma execPm2_split: "execPm2 X args tr = (fst (execPm2 X args tr), tr @ [Exec ''pm2'' args])"
  by (simp add: execPm2_def)

lemma isPm2Available_split:
  "isPm2Available X tr = (fst (isPm2Available X tr), tr @ [Exec ''pm2'' [Some ''--version'']])"
  by (simp add: isPm2Available_def execPm2_def)

lemma assertPm2Available_eq:
  "assertPm2Available X tr =
     (if fst (isPm2Available X tr) then Inr ()
      else Inl (JsError ''Error''
             ''pm2 not available; please install it globally with `npm install -g pm2`''),
      tr @ [Exec ''pm2'' [Some ''--version'']])"
  by (subst assertPm2Available_def, subst isPm2Available_split) simp

lemma find_name_objects:
  "find_name n (map JObj procs)
     = Inr (map_option JObj (List.find (\<lambda>p. map_of p ''name'' = Some (JStr n)) procs))"
  by (induction procs) (simp_all add: get_prop_def)

lemma readPm2ServiceRuntime_eq:
  "readPm2ServiceRuntime X env tr =
     (if \<not> fst (isPm2Available X tr)
      then (Inr \<lparr>status = unknown, state = None, pid = None, lastExitStatus = None,
                 missingUnit = None,
                 detail = Some ''Error: pm2 not available; please install it globally with `npm install -g pm2`''\<rparr>,
            tr @ [Exec ''pm2'' [Some ''--version'']])
      else
        let res = jlist_result X tr
        in ((if code res \<noteq> 0
             then Inr \<lparr>status = unknown, state = None, pid = None, lastExitStatus = None,
                       missingUnit = None, detail = Some (js_or (stderr res) (stdout res))\<rparr>
             else case readPm2ServiceRuntime_try X (resolvePm2ServiceName X env) (stdout res) of
                    Inr rt \<Rightarrow> Inr rt
                  | Inl _ \<Rightarrow>
                      Inr \<lparr>status = unknown, state = None, pid = None, lastExitStatus = None,
                           missingUnit = None, detail = None\<rparr>),
            tr @ [Exec ''pm2'' [Some ''--version''], Exec ''pm2'' [Some ''jlist'']]))"
  apply (subst readPm2ServiceRuntime_def)
  apply (subst assertPm2Available_eq)
  apply (subst execPm2_split)
  apply (simp add: String_of_error_def Let_def jlist_result_def split: sum.splits)
  done

lemma try_invariant:
  "readPm2ServiceRuntime_try X n out = Inr rt \<Longrightarrow> missingUnit rt = Some True \<Longrightarrow> status rt = stopped"
  by (auto simp: readPm2ServiceRuntime_try_def split: sum.splits option.splits)

lemma try_objects:
  assumes "JSON_parse X out = Inr (JArr (map JObj procs))"
  shows "readPm2ServiceRuntime_try X n out =
     (case List.find (\<lambda>p. map_of p ''name'' = Some (JStr n)) procs of
        None \<Rightarrow> Inr \<lparr>status = stopped, state = None, pid = None, lastExitStatus = None,
                     missingUnit = Some True, detail = None\<rparr>
      | Some app \<Rightarrow>
          (case get_prop_opt (map_of app ''pm2_env'') ''status'' of
             Inl e \<Rightarrow> Inl e
           | Inr native \<Rightarrow>
               Inr \<lparr>status = (if native = Some (JStr ''online'') then running else stopped),
                    state = native, pid = map_of app ''pid'',
                    lastExitStatus = projr (get_prop_opt (map_of app ''pm2_env'') ''exit_code''),
                    missingUnit = None, detail = None\<rparr>))"
  using assms
  by (auto simp: readPm2ServiceRuntime_try_def list_find_def find_name_objects get_prop_def
                 get_prop_opt_def
           split: sum.splits option.splits json.splits)

lemmas host_simps =
  example_host_def example_parse_def example_name_def example_jlist_def
  example_jlist_partial_def pm2_prints_def pm2_absent_def pm2_idle_def pm2_fails_at_def
  pm2_fails_on_stdout_at_def no_env_def missing_unit_def newline_def example_host_systemd_failing_def active_unit_def

lemmas pm2_simps =
  execPm2_def isPm2Available_def assertPm2Available_def resolvePm2ServiceName_def
  env_or_empty_def formatLine_def js_or_def

text \<open>
  C3. The status mapping of \<open>readPm2ServiceRuntime\<close>. Whatever it returns,
  \<open>missingUnit = true\<close> comes with the status \<open>stopped\<close>. When \<open>pm2 jlist\<close> gives a
  list of process objects, the entry used is the first one whose \<open>name\<close> is the
  resolved service name: without such an entry the result is \<open>stopped\<close> with
  \<open>missingUnit = true\<close>; with one, the status is \<open>running\<close> when the native status is
  \<open>online\<close> and \<open>stopped\<close> otherwise, and \<open>state\<close>, \<open>pid\<close> and \<open>lastExitStatus\<close> are
  the entry's \<open>pm2_env.status\<close>, \<open>pid\<close> and \<open>pm2_env.exit_code\<close>.
\<close>

theorem readPm2ServiceRuntime_mapping:
  "(fst (readPm2ServiceRuntime X env tr) = Inr rt \<longrightarrow> missingUnit rt = Some True
      \<longrightarrow> status rt = stopped) \<and>
   (jlist_gives X tr procs \<longrightarrow>
      (List.find (\<lambda>p. map_of p ''name'' = Some (JStr (resolvePm2ServiceName X env))) procs = None
         \<longrightarrow> fst (readPm2ServiceRuntime X env tr)
               = Inr \<lparr>status = stopped, state = None, pid = None, lastExitStatus = None,
                      missingUnit = Some True, detail = None\<rparr>) \<and>
      (List.find (\<lambda>p. map_of p ''name'' = Some (JStr (resolvePm2ServiceName X env))) procs = Some app
         \<and> map_of app ''pm2_env'' = Some (JObj e)
         \<longrightarrow> fst (readPm2ServiceRuntime X env tr)
               = Inr \<lparr>status = (if map_of e ''status'' = Some (JStr ''online'')
                                then running else stopped),
                      state = map_of e ''status'', pid = map_of app ''pid'',
                      lastExitStatus = map_of e ''exit_code'',
                      missingUnit = None, detail = None\<rparr>))"
proof (intro conjI impI)
  assume "fst (readPm2ServiceRuntime X env tr) = Inr rt" and "missingUnit rt = Some True"
  then show "status rt = stopped"
    by (auto simp: readPm2ServiceRuntime_eq Let_def
             split: if_splits sum.splits dest: try_invariant)
next
  assume g: "jlist_gives X tr procs"
    and f: "List.find (\<lambda>p. map_of p ''name'' = Some (JStr (resolvePm2ServiceName X env))) procs = None"
  from g have p: "JSON_parse X (stdout (jlist_result X tr)) = Inr (JArr (map JObj procs))"
    by (simp add: jlist_gives_def)
  from g f show "fst (readPm2ServiceRuntime X env tr)
       = Inr \<lparr>status = stopped, state = None, pid = None, lastExitStatus = None,
              missingUnit = Some True, detail = None\<rparr>"
    by (simp add: readPm2ServiceRuntime_eq Let_def jlist_gives_def try_objects [OF p])
next
  assume g: "jlist_gives X tr procs"
    and f: "List.find (\<lambda>p. map_of p ''name'' = Some (JStr (resolvePm2ServiceName X env))) procs = Some app
            \<and> map_of app ''pm2_env'' = Some (JObj e)"
  from g have p: "JSON_parse X (stdout (jlist_result X tr)) = Inr (JArr (map JObj procs))"
    by (simp add: jlist_gives_def)
  from g f show "fst (readPm2ServiceRuntime X env tr)
       = Inr \<lparr>status = (if map_of e ''status'' = Some (JStr ''online'') then running else stopped),
              state = map_of e ''status'', pid = map_of app ''pid'',
              lastExitStatus = map_of e ''exit_code'', missingUnit = None, detail = None\<rparr>"
    by (simp add: readPm2ServiceRuntime_eq Let_def jlist_gives_def try_objects [OF p]
                  get_prop_opt_def get_prop_def)
qed

theorem readPm2ServiceRuntime_mapping_witness:
  "jlist_gives (example_host False False missing_unit (pm2_prints example_jlist)) []
     [[(''name'', JStr ''gateway''),
       (''pm2_env'', JObj [(''status'', JStr ''online''), (''exit_code'', JNum 0)]),
       (''pid'', JNum 123)]] \<and>
   fst (readPm2ServiceRuntime (example_host False False missing_unit (pm2_prints example_jlist))
          no_env [])
     = Inr \<lparr>status = running, state = Some (JStr ''online''), pid = Some (JNum 123),
            lastExitStatus = Some (JNum 0), missingUnit = None, detail = None\<rparr> \<and>
   jlist_gives (example_host False False missing_unit (pm2_prints ''[]'')) [] [] \<and>
   fst (readPm2ServiceRuntime (example_host False False missing_unit (pm2_prints ''[]'')) no_env [])
     = Inr \<lparr>status = stopped, state = None, pid = None, lastExitStatus = None,
            missingUnit = Some True, detail = None\<rparr>"
  using readPm2ServiceRuntime_mapping
          [of "example_host False False missing_unit (pm2_prints example_jlist)" no_env "[]"
              missing_unit
              "[[(''name'', JStr ''gateway''),
                 (''pm2_env'', JObj [(''status'', JStr ''online''), (''exit_code'', JNum 0)]),
                 (''pid'', JNum 123)]]"
              "[(''name'', JStr ''gateway''),
                (''pm2_env'', JObj [(''status'', JStr ''online''), (''exit_code'', JNum 0)]),
                (''pid'', JNum 123)]"
              "[(''status'', JStr ''online''), (''exit_code'', JNum 0)]"]
        readPm2ServiceRuntime_mapping
          [of "example_host False False missing_unit (pm2_prints ''[]'')" no_env "[]"
              missing_unit "[]"]
  by (simp add: jlist_gives_def jlist_result_def host_simps pm2_simps)

lemma linux_readRuntime_pm2_eq:
  "linux_readRuntime_pm2 X env h =
     (if fst (isPm2Available X h)
      then readPm2ServiceRuntime X env (h @ [Exec ''pm2'' [Some ''--version'']])
      else (Inr \<lparr>status = unknown, state = None, pid = None, lastExitStatus = None,
                 missingUnit = None, detail = Some ''Systemd/PM2 unavailable''\<rparr>,
            h @ [Exec ''pm2'' [Some ''--version'']]))"
  by (subst linux_readRuntime_pm2_def, subst isPm2Available_split) simp

lemma readPm2ServiceRuntime_returns: "\<exists>rt. fst (readPm2ServiceRuntime X env tr) = Inr rt"
  by (simp add: readPm2ServiceRuntime_eq Let_def split: sum.splits)

lemma linux_readRuntime_pm2_returns: "\<exists>rt. fst (linux_readRuntime_pm2 X env h) = Inr rt"
  by (simp add: linux_readRuntime_pm2_eq readPm2ServiceRuntime_returns)

lemma linux_readRuntime_eq:
  "linux_readRuntime X env tr =
     (if isSystemdUserServiceAvailable X tr
      then (case readSystemdServiceRuntime X (tr @ [Systemd SdAvailable]) env of
              Inl e \<Rightarrow> (Inl e, tr @ [Systemd SdAvailable, Systemd SdReadRuntime])
            | Inr rt \<Rightarrow>
                if missingUnit rt \<noteq> Some True
                then (Inr rt, tr @ [Systemd SdAvailable, Systemd SdReadRuntime])
                else linux_readRuntime_pm2 X env (tr @ [Systemd SdAvailable, Systemd SdReadRuntime]))
      else linux_readRuntime_pm2 X env (tr @ [Systemd SdAvailable]))"
  by (simp add: linux_readRuntime_def systemd_available_def systemd_readRuntime_def
           split: sum.splits)

text \<open>
  C5. \<open>readPm2ServiceRuntime\<close> never throws: on every host and after any events it
  returns a runtime status. When \<open>pm2\<close> is missing the status is \<open>unknown\<close> with the
  message of the availability error as detail; when \<open>pm2 jlist\<close> exits with a nonzero
  code it is \<open>unknown\<close> with the captured stderr (or else stdout) as detail; when
  anything in the second \<open>try\<close> block throws it is \<open>unknown\<close> without detail, and
  that block throws on malformed JSON and on an entry of the service without
  \<open>pm2_env\<close>. \<open>readRuntime\<close> of the Linux set adds no throw of its own: it returns a
  runtime status whenever the \<open>readRuntime\<close> of systemd.ts, if called, returns one.
\<close>

theorem readRuntime_never_throws:
  "(\<exists>rt. fst (readPm2ServiceRuntime X env tr) = Inr rt) \<and>
   (\<not> fst (isPm2Available X tr) \<longrightarrow>
      fst (readPm2ServiceRuntime X env tr)
        = Inr \<lparr>status = unknown, state = None, pid = None, lastExitStatus = None,
               missingUnit = None,
               detail = Some ''Error: pm2 not available; please install it globally with `npm install -g pm2`''\<rparr>) \<and>
   (fst (isPm2Available X tr) \<and> code (jlist_result X tr) \<noteq> 0 \<longrightarrow>
      fst (readPm2ServiceRuntime X env tr)
        = Inr \<lparr>status = unknown, state = None, pid = None, lastExitStatus = None,
               missingUnit = None,
               detail = Some (js_or (stderr (jlist_result X tr)) (stdout (jlist_result X tr)))\<rparr>) \<and>
   (fst (isPm2Available X tr) \<and> code (jlist_result X tr) = 0 \<and>
    isl (readPm2ServiceRuntime_try X (resolvePm2ServiceName X env) (stdout (jlist_result X tr))) \<longrightarrow>
      fst (readPm2ServiceRuntime X env tr)
        = Inr \<lparr>status = unknown, state = None, pid = None, lastExitStatus = None,
               missingUnit = None, detail = None\<rparr>) \<and>
   (isl (JSON_parse X out) \<longrightarrow> isl (readPm2ServiceRuntime_try X n out)) \<and>
   (JSON_parse X out = Inr (JArr (map JObj procs)) \<and>
    List.find (\<lambda>p. map_of p ''name'' = Some (JStr n)) procs = Some app \<and>
    map_of app ''pm2_env'' = None \<longrightarrow> isl (readPm2ServiceRuntime_try X n out)) \<and>
   ((isSystemdUserServiceAvailable X tr \<longrightarrow>
       \<not> isl (readSystemdServiceRuntime X (tr @ [Systemd SdAvailable]) env))
      \<longrightarrow> (\<exists>rt. fst (linux_readRuntime X env tr) = Inr rt))"
proof (intro conjI impI)
  show "\<exists>rt. fst (readPm2ServiceRuntime X env tr) = Inr rt"
    by (rule readPm2ServiceRuntime_returns)
next
  assume "\<not> fst (isPm2Available X tr)"
  then show "fst (readPm2ServiceRuntime X env tr)
        = Inr \<lparr>status = unknown, state = None, pid = None, lastExitStatus = None,
               missingUnit = None,
               detail = Some ''Error: pm2 not available; please install it globally with `npm install -g pm2`''\<rparr>"
    by (simp add: readPm2ServiceRuntime_eq)
next
  assume "fst (isPm2Available X tr) \<and> code (jlist_result X tr) \<noteq> 0"
  then show "fst (readPm2ServiceRuntime X env tr)
        = Inr \<lparr>status = unknown, state = None, pid = None, lastExitStatus = None,
               missingUnit = None,
               detail = Some (js_or (stderr (jlist_result X tr)) (stdout (jlist_result X tr)))\<rparr>"
    by (simp add: readPm2ServiceRuntime_eq Let_def)
next
  assume "fst (isPm2Available X tr) \<and> code (jlist_result X tr) = 0 \<and>
    isl (readPm2ServiceRuntime_try X (resolvePm2ServiceName X env) (stdout (jlist_result X tr)))"
  then show "fst (readPm2ServiceRuntime X env tr)
        = Inr \<lparr>status = unknown, state = None, pid = None, lastExitStatus = None,
               missingUnit = None, detail = None\<rparr>"
    by (auto simp: readPm2ServiceRuntime_eq Let_def split: sum.splits)
next
  assume "isl (JSON_parse X out)"
  then show "isl (readPm2ServiceRuntime_try X n out)"
    by (auto simp: readPm2ServiceRuntime_try_def split: sum.splits)
next
  assume a: "JSON_parse X out = Inr (JArr (map JObj procs)) \<and>
    List.find (\<lambda>p. map_of p ''name'' = Some (JStr n)) procs = Some app \<and>
    map_of app ''pm2_env'' = None"
  then have p: "JSON_parse X out = Inr (JArr (map JObj procs))" by simp
  from a show "isl (readPm2ServiceRuntime_try X n out)"
    by (simp add: try_objects [OF p] get_prop_opt_def)
next
  assume "isSystemdUserServiceAvailable X tr \<longrightarrow>
       \<not> isl (readSystemdServiceRuntime X (tr @ [Systemd SdAvailable]) env)"
  then show "\<exists>rt. fst (linux_readRuntime X env tr) = Inr rt"
    by (auto simp: linux_readRuntime_eq linux_readRuntime_pm2_returns split: sum.splits)
qed

theorem readRuntime_never_throws_witness:
  "\<not> fst (isPm2Available (example_host True False missing_unit pm2_absent) []) \<and>
   fst (readPm2ServiceRuntime (example_host True False missing_unit pm2_absent) no_env [])
     = Inr \<lparr>status = unknown, state = None, pid = None, lastExitStatus = None,
            missingUnit = None,
            detail = Some ''Error: pm2 not available; please install it globally with `npm install -g pm2`''\<rparr> \<and>
   fst (linux_readRuntime (example_host True False missing_unit pm2_absent) no_env [])
     = Inr \<lparr>status = unknown, state = None, pid = None, lastExitStatus = None,
            missingUnit = None, detail = Some ''Systemd/PM2 unavailable''\<rparr> \<and>
   code (jlist_result (example_host True False missing_unit (pm2_fails_at ''jlist'')) []) \<noteq> 0 \<and>
   fst (readPm2ServiceRuntime (example_host True False missing_unit (pm2_fails_at ''jlist'')) no_env [])
     = Inr \<lparr>status = unknown, state = None, pid = None, lastExitStatus = None,
            missingUnit = None, detail = Some (''[PM2][ERROR] jlist failed'' @ newline)\<rparr> \<and>
   isl (JSON_parse (example_host True False missing_unit (pm2_prints ''<html>'')) ''<html>'') \<and>
   fst (readPm2ServiceRuntime (example_host True False missing_unit (pm2_prints ''<html>'')) no_env [])
     = Inr \<lparr>status = unknown, state = None, pid = None, lastExitStatus = None,
            missingUnit = None, detail = None\<rparr> \<and>
   fst (readPm2ServiceRuntime
          (example_host True False missing_unit (pm2_prints example_jlist_partial)) no_env [])
     = Inr \<lparr>status = unknown, state = None, pid = None, lastExitStatus = None,
            missingUnit = None, detail = None\<rparr>"
  using readRuntime_never_throws
          [of "example_host True False missing_unit pm2_absent" no_env "[]"]
        readRuntime_never_throws
          [of "example_host True False missing_unit (pm2_fails_at ''jlist'')" no_env "[]"]
        readRuntime_never_throws
          [of "example_host True False missing_unit (pm2_prints ''<html>'')" no_env "[]"
              "''<html>''" "''gateway''"]
        readRuntime_never_throws
          [of "example_host True False missing_unit (pm2_prints example_jlist_partial)" no_env "[]"
              example_jlist_partial "''gateway''"
              "[[(''name'', JStr ''gateway''), (''pid'', JNum 123)]]"
              "[(''name'', JStr ''gateway''), (''pid'', JNum 123)]"]
  by (simp add: jlist_result_def host_simps pm2_simps linux_readRuntime_eq linux_readRuntime_pm2_eq)

text \<open>
  C2. \<open>readRuntime\<close> of the Linux set. With systemd-user available it returns the
  status systemd-user reports unless that status has \<open>missingUnit\<close> set; with
  \<open>missingUnit\<close> set, and also when systemd-user is unavailable, it goes on to PM2 and
  returns what \<open>readPm2ServiceRuntime\<close> returns when \<open>pm2\<close> is available, so that a
  missing systemd unit and an online PM2 process of the service give \<open>running\<close>; when
  neither backend is available it returns \<open>unknown\<close> with the detail
  \<open>Systemd/PM2 unavailable\<close>.
\<close>

theorem linux_readRuntime_fallthrough:
  "(isSystemdUserServiceAvailable X tr \<and>
    readSystemdServiceRuntime X (tr @ [Systemd SdAvailable]) env = Inr rt \<and>
    missingUnit rt \<noteq> Some True
      \<longrightarrow> fst (linux_readRuntime X env tr) = Inr rt) \<and>
   (isSystemdUserServiceAvailable X tr \<and>
    readSystemdServiceRuntime X (tr @ [Systemd SdAvailable]) env = Inr rt \<and>
    missingUnit rt = Some True \<and>
    fst (isPm2Available X (tr @ [Systemd SdAvailable, Systemd SdReadRuntime]))
      \<longrightarrow> linux_readRuntime X env tr
            = readPm2ServiceRuntime X env
                (tr @ [Systemd SdAvailable, Systemd SdReadRuntime, Exec ''pm2'' [Some ''--version'']])) \<and>
   (isSystemdUserServiceAvailable X tr \<and>
    readSystemdServiceRuntime X (tr @ [Systemd SdAvailable]) env = Inr rt \<and>
    missingUnit rt = Some True \<and>
    fst (isPm2Available X (tr @ [Systemd SdAvailable, Systemd SdReadRuntime])) \<and>
    jlist_gives X (tr @ [Systemd SdAvailable, Systemd SdReadRuntime, Exec ''pm2'' [Some ''--version'']])
      procs \<and>
    List.find (\<lambda>p. map_of p ''name'' = Some (JStr (resolvePm2ServiceName X env))) procs = Some app \<and>
    map_of app ''pm2_env'' = Some (JObj e) \<and> map_of e ''status'' = Some (JStr ''online'')
      \<longrightarrow> (\<exists>rt'. fst (linux_readRuntime X env tr) = Inr rt' \<and> status rt' = running)) \<and>
   (\<not> isSystemdUserServiceAvailable X tr \<and> fst (isPm2Available X (tr @ [Systemd SdAvailable]))
      \<longrightarrow> linux_readRuntime X env tr
            = readPm2ServiceRuntime X env
                (tr @ [Systemd SdAvailable, Exec ''pm2'' [Some ''--version'']])) \<and>
   (\<not> isSystemdUserServiceAvailable X tr \<and> \<not> fst (isPm2Available X (tr @ [Systemd SdAvailable]))
      \<longrightarrow> fst (linux_readRuntime X env tr)
            = Inr \<lparr>status = unknown, state = None, pid = None, lastExitStatus = None,
                   missingUnit = None, detail = Some ''Systemd/PM2 unavailable''\<rparr>)"
proof (intro conjI impI)
  assume "isSystemdUserServiceAvailable X tr \<and>
    readSystemdServiceRuntime X (tr @ [Systemd SdAvailable]) env = Inr rt \<and>
    missingUnit rt \<noteq> Some True"
  then show "fst (linux_readRuntime X env tr) = Inr rt"
    by (simp add: linux_readRuntime_eq)
next
  assume "isSystemdUserServiceAvailable X tr \<and>
    readSystemdServiceRuntime X (tr @ [Systemd SdAvailable]) env = Inr rt \<and>
    missingUnit rt = Some True \<and>
    fst (isPm2Available X (tr @ [Systemd SdAvailable, Systemd SdReadRuntime]))"
  then show "linux_readRuntime X env tr
            = readPm2ServiceRuntime X env
                (tr @ [Systemd SdAvailable, Systemd SdReadRuntime, Exec ''pm2'' [Some ''--version'']])"
    by (simp add: linux_readRuntime_eq linux_readRuntime_pm2_eq)
next
  assume a: "isSystemdUserServiceAvailable X tr \<and>
    readSystemdServiceRuntime X (tr @ [Systemd SdAvailable]) env = Inr rt \<and>
    missingUnit rt = Some True \<and>
    fst (isPm2Available X (tr @ [Systemd SdAvailable, Systemd SdReadRuntime])) \<and>
    jlist_gives X (tr @ [Systemd SdAvailable, Systemd SdReadRuntime, Exec ''pm2'' [Some ''--version'']])
      procs \<and>
    List.find (\<lambda>p. map_of p ''name'' = Some (JStr (resolvePm2ServiceName X env))) procs = Some app \<and>
    map_of app ''pm2_env'' = Some (JObj e) \<and> map_of e ''status'' = Some (JStr ''online'')"
  let ?h = "tr @ [Systemd SdAvailable, Systemd SdReadRuntime, Exec ''pm2'' [Some ''--version'']]"
  from a have g: "jlist_gives X ?h procs" by simp
  then have p: "JSON_parse X (stdout (jlist_result X ?h)) = Inr (JArr (map JObj procs))"
    by (simp add: jlist_gives_def)
  have l: "linux_readRuntime X env tr = readPm2ServiceRuntime X env ?h"
    using a by (simp add: linux_readRuntime_eq linux_readRuntime_pm2_eq)
  from a g show "\<exists>rt'. fst (linux_readRuntime X env tr) = Inr rt' \<and> status rt' = running"
    unfolding l
    by (simp add: readPm2ServiceRuntime_eq Let_def jlist_gives_def try_objects [OF p]
                  get_prop_opt_def get_prop_def)
next
  assume "\<not> isSystemdUserServiceAvailable X tr \<and> fst (isPm2Available X (tr @ [Systemd SdAvailable]))"
  then show "linux_readRuntime X env tr
            = readPm2ServiceRuntime X env
                (tr @ [Systemd SdAvailable, Exec ''pm2'' [Some ''--version'']])"
    by (simp add: linux_readRuntime_eq linux_readRuntime_pm2_eq)
next
  assume "\<not> isSystemdUserServiceAvailable X tr \<and> \<not> fst (isPm2Available X (tr @ [Systemd SdAvailable]))"
  then show "fst (linux_readRuntime X env tr)
            = Inr \<lparr>status = unknown, state = None, pid = None, lastExitStatus = None,
                   missingUnit = None, detail = Some ''Systemd/PM2 unavailable''\<rparr>"
    by (simp add: linux_readRuntime_eq linux_readRuntime_pm2_eq)
qed

theorem linux_readRuntime_fallthrough_witness:
  "fst (linux_readRuntime (example_host True True active_unit (pm2_prints example_jlist)) no_env [])
     = Inr active_unit \<and>
   fst (linux_readRuntime (example_host True False missing_unit (pm2_prints example_jlist)) no_env [])
     = Inr \<lparr>status = running, state = Some (JStr ''online''), pid = Some (JNum 123),
            lastExitStatus = Some (JNum 0), missingUnit = None, detail = None\<rparr> \<and>
   fst (linux_readRuntime (example_host False False missing_unit (pm2_prints ''[]'')) no_env [])
     = Inr missing_unit \<and>
   fst (linux_readRuntime (example_host False False missing_unit pm2_absent) no_env [])
     = Inr \<lparr>status = unknown, state = None, pid = None, lastExitStatus = None,
            missingUnit = None, detail = Some ''Systemd/PM2 unavailable''\<rparr>"
  using linux_readRuntime_fallthrough
          [of "example_host True True active_unit (pm2_prints example_jlist)" "[]" no_env active_unit]
        linux_readRuntime_fallthrough
          [of "example_host True False missing_unit (pm2_prints example_jlist)" "[]" no_env
              missing_unit
              "[[(''name'', JStr ''gateway''),
                 (''pm2_env'', JObj [(''status'', JStr ''online''), (''exit_code'', JNum 0)]),
                 (''pid'', JNum 123)]]"
              "[(''name'', JStr ''gateway''),
                (''pm2_env'', JObj [(''status'', JStr ''online''), (''exit_code'', JNum 0)]),
                (''pid'', JNum 123)]"
              "[(''status'', JStr ''online''), (''exit_code'', JNum 0)]"]
        linux_readRuntime_fallthrough
          [of "example_host False False missing_unit (pm2_prints ''[]'')" "[]" no_env]
        linux_readRuntime_fallthrough
          [of "example_host False False missing_unit pm2_absent" "[]" no_env]
  by (simp add: jlist_gives_def jlist_result_def host_simps pm2_simps
                readPm2ServiceRuntime_eq readPm2ServiceRuntime_try_def list_find_def
                get_prop_def get_prop_opt_def)

lemma trimEnd_append:
  "trimEnd c \<noteq> [] \<Longrightarrow> trimEnd (p @ c) = p @ trimEnd c"
  by (auto simp: trimEnd_def dropWhile_append)

lemma trim_prefixed:
  "p \<noteq> [] \<Longrightarrow> \<not> is_white_space (hd p) \<Longrightarrow> trimEnd c \<noteq> [] \<Longrightarrow> trim (p @ c) = p @ trimEnd c"
proof (cases p)
  case Nil
  then show "p \<noteq> [] \<Longrightarrow> trim (p @ c) = p @ trimEnd c" by simp
next
  case (Cons a q)
  assume "\<not> is_white_space (hd p)" and c: "trimEnd c \<noteq> []"
  then have "trim (p @ c) = trimEnd (p @ c)" by (simp add: trim_def Cons)
  also from c have "\<dots> = p @ trimEnd c" by (rule trimEnd_append)
  finally show "trim (p @ c) = p @ trimEnd c" .
qed

lemma trim_start_failed:
  "trimEnd c \<noteq> [] \<Longrightarrow> trim (''pm2 start failed: '' @ c) = ''pm2 start failed: '' @ trimEnd c"
  by (rule trim_prefixed) (simp_all add: is_white_space_def)

lemma trim_save_failed:
  "trimEnd c \<noteq> [] \<Longrightarrow> trim (''pm2 save failed: '' @ c) = ''pm2 save failed: '' @ trimEnd c"
  by (rule trim_prefixed) (simp_all add: is_white_space_def)

lemma installPm2Service_eq:
  "installPm2Service X env (interpreter # script # args) tr =
     (let svc = resolvePm2ServiceName X env;
          tr2 = tr @ [Exec ''pm2'' [Some ''--version'']];
          tr3 = tr2 @ [Exec ''pm2'' [Some ''delete'', Some svc]];
          start = fst (execPm2 X (spec_start_command svc interpreter script args) tr3);
          tr4 = tr3 @ [Exec ''pm2'' (spec_start_command svc interpreter script args)];
          save = fst (execPm2 X [Some ''save''] tr4);
          tr5 = tr4 @ [Exec ''pm2'' [Some ''save'']]
      in if \<not> fst (isPm2Available X tr)
         then (Inl (JsError ''Error''
                 ''pm2 not available; please install it globally with `npm install -g pm2`''), tr2)
         else if code start \<noteq> 0
         then (Inl (JsError ''Error''
                 (trim (''pm2 start failed: '' @ js_or (stderr start) (stdout start)))), tr4)
         else if code save \<noteq> 0
         then (Inl (JsError ''Error''
                 (trim (''pm2 save failed: '' @ js_or (stderr save) (stdout save)))), tr5)
         else (Inr (), tr5 @ [Write newline,
                              Write (formatLine X ''Installed PM2 service'' svc @ newline)]))"
  by (simp add: installPm2Service_def assertPm2Available_def isPm2Available_def execPm2_def
                Let_def index_def spec_start_command_def)

text \<open>
  C7. \<open>installPm2Service\<close> on \<open>programArguments = [interpreter, script, ...args]\<close>,
  with \<open>pm2\<close> available: it runs \<open>pm2 delete <svc>\<close>, then
  \<open>pm2 start <script> --name <svc> --interpreter <interpreter> -- <args...>\<close>, and
  after a start that exits with 0, \<open>pm2 save\<close>. A nonzero exit of the start throws an
  error whose message is \<open>pm2 start failed:\<close> followed by the captured stderr when
  that is not empty and by the captured stdout when stderr is empty, trimmed; a nonzero
  exit of the save throws in the same way with \<open>pm2 save failed:\<close>, although the
  start has succeeded.
\<close>

theorem installPm2Service_sequence:
  "fst (isPm2Available X tr) \<longrightarrow>
   (let svc = resolvePm2ServiceName X env;
        tr3 = tr @ [Exec ''pm2'' [Some ''--version''], Exec ''pm2'' [Some ''delete'', Some svc]];
        start_command = spec_start_command svc interpreter script args;
        start = fst (execPm2 X start_command tr3);
        tr4 = tr3 @ [Exec ''pm2'' start_command];
        save = fst (execPm2 X [Some ''save''] tr4);
        tr5 = tr4 @ [Exec ''pm2'' [Some ''save'']]
    in installPm2Service X env (interpreter # script # args) tr =
         (if code start \<noteq> 0
          then (Inl (JsError ''Error''
                  (trim (''pm2 start failed: '' @
                         (if stderr start = [] then stdout start else stderr start)))), tr4)
          else if code save \<noteq> 0
          then (Inl (JsError ''Error''
                  (trim (''pm2 save failed: '' @
                         (if stderr save = [] then stdout save else stderr save)))), tr5)
          else (Inr (), tr5 @ [Write newline,
                               Write (formatLine X ''Installed PM2 service'' svc @ newline)])) \<and>
       (code start \<noteq> 0 \<and> trimEnd (stderr start) \<noteq> [] \<longrightarrow>
          fst (installPm2Service X env (interpreter # script # args) tr)
            = Inl (JsError ''Error'' (''pm2 start failed: '' @ trimEnd (stderr start)))) \<and>
       (code start \<noteq> 0 \<and> stderr start = [] \<and> trimEnd (stdout start) \<noteq> [] \<longrightarrow>
          fst (installPm2Service X env (interpreter # script # args) tr)
            = Inl (JsError ''Error'' (''pm2 start failed: '' @ trimEnd (stdout start)))) \<and>
       (code start = 0 \<and> code save \<noteq> 0 \<and> trimEnd (stderr save) \<noteq> [] \<longrightarrow>
          fst (installPm2Service X env (interpreter # script # args) tr)
            = Inl (JsError ''Error'' (''pm2 save failed: '' @ trimEnd (stderr save)))) \<and>
       (code start = 0 \<and> code save \<noteq> 0 \<and> stderr save = [] \<and> trimEnd (stdout save) \<noteq> [] \<longrightarrow>
          fst (installPm2Service X env (interpreter # script # args) tr)
            = Inl (JsError ''Error'' (''pm2 save failed: '' @ trimEnd (stdout save)))))"
proof -
  have ne: "\<And>c. trimEnd c \<noteq> [] \<Longrightarrow> c \<noteq> []"
    by (auto simp: trimEnd_def)
  show ?thesis
    by (auto simp: installPm2Service_eq Let_def js_or_def trim_start_failed [simplified]
                   trim_save_failed [simplified] dest: ne)
qed

theorem installPm2Service_sequence_witness:
  "fst (isPm2Available (example_host False False missing_unit (pm2_fails_at ''start'')) []) \<and>
   installPm2Service (example_host False False missing_unit (pm2_fails_at ''start'')) no_env
       [''node'', ''/app/gw.js'', ''--port'', ''3000''] []
     = (Inl (JsError ''Error'' ''pm2 start failed: [PM2][ERROR] start failed''),
        [Exec ''pm2'' [Some ''--version''],
         Exec ''pm2'' [Some ''delete'', Some ''gateway''],
         Exec ''pm2'' [Some ''start'', Some ''/app/gw.js'', Some ''--name'', Some ''gateway'',
                       Some ''--interpreter'', Some ''node'', Some ''--'',
                       Some ''--port'', Some ''3000'']]) \<and>
   stderr (fst (execPm2 (example_host False False missing_unit (pm2_fails_on_stdout_at ''start''))
                  (spec_start_command ''gateway'' ''node'' ''/app/gw.js'' [''--port'', ''3000''])
                  [Exec ''pm2'' [Some ''--version''],
                   Exec ''pm2'' [Some ''delete'', Some ''gateway'']])) = [] \<and>
   installPm2Service (example_host False False missing_unit (pm2_fails_on_stdout_at ''start''))
       no_env [''node'', ''/app/gw.js'', ''--port'', ''3000''] []
     = (Inl (JsError ''Error'' ''pm2 start failed: [PM2][ERROR] start refused''),
        [Exec ''pm2'' [Some ''--version''],
         Exec ''pm2'' [Some ''delete'', Some ''gateway''],
         Exec ''pm2'' [Some ''start'', Some ''/app/gw.js'', Some ''--name'', Some ''gateway'',
                       Some ''--interpreter'', Some ''node'', Some ''--'',
                       Some ''--port'', Some ''3000'']]) \<and>
   installPm2Service (example_host False False missing_unit (pm2_fails_at ''save'')) no_env
       [''node'', ''/app/gw.js'', ''--port'', ''3000''] []
     = (Inl (JsError ''Error'' ''pm2 save failed: [PM2][ERROR] save failed''),
        [Exec ''pm2'' [Some ''--version''],
         Exec ''pm2'' [Some ''delete'', Some ''gateway''],
         Exec ''pm2'' [Some ''start'', Some ''/app/gw.js'', Some ''--name'', Some ''gateway'',
                       Some ''--interpreter'', Some ''node'', Some ''--'',
                       Some ''--port'', Some ''3000''],
         Exec ''pm2'' [Some ''save'']]) \<and>
   installPm2Service (example_host False False missing_unit (pm2_fails_on_stdout_at ''save''))
       no_env [''node'', ''/app/gw.js'', ''--port'', ''3000''] []
     = (Inl (JsError ''Error'' ''pm2 save failed: [PM2][ERROR] save refused''),
        [Exec ''pm2'' [Some ''--version''],
         Exec ''pm2'' [Some ''delete'', Some ''gateway''],
         Exec ''pm2'' [Some ''start'', Some ''/app/gw.js'', Some ''--name'', Some ''gateway'',
                       Some ''--interpreter'', Some ''node'', Some ''--'',
                       Some ''--port'', Some ''3000''],
         Exec ''pm2'' [Some ''save'']]) \<and>
   installPm2Service (example_host False False missing_unit (pm2_prints [])) no_env
       [''node'', ''/app/gw.js'', ''--port'', ''3000''] []
     = (Inr (),
        [Exec ''pm2'' [Some ''--version''],
         Exec ''pm2'' [Some ''delete'', Some ''gateway''],
         Exec ''pm2'' [Some ''start'', Some ''/app/gw.js'', Some ''--name'', Some ''gateway'',
                       Some ''--interpreter'', Some ''node'', Some ''--'',
                       Some ''--port'', Some ''3000''],
         Exec ''pm2'' [Some ''save''],
         Write newline, Write (''Installed PM2 service: gateway'' @ newline)])"
  using installPm2Service_sequence
          [of "example_host False False missing_unit (pm2_fails_at ''start'')" "[]" no_env
              "''node''" "''/app/gw.js''" "[''--port'', ''3000'']"]
        installPm2Service_sequence
          [of "example_host False False missing_unit (pm2_fails_on_stdout_at ''start'')" "[]" no_env
              "''node''" "''/app/gw.js''" "[''--port'', ''3000'']"]
        installPm2Service_sequence
          [of "example_host False False missing_unit (pm2_fails_at ''save'')" "[]" no_env
              "''node''" "''/app/gw.js''" "[''--port'', ''3000'']"]
        installPm2Service_sequence
          [of "example_host False False missing_unit (pm2_fails_on_stdout_at ''save'')" "[]" no_env
              "''node''" "''/app/gw.js''" "[''--port'', ''3000'']"]
        installPm2Service_sequence
          [of "example_host False False missing_unit (pm2_prints [])" "[]" no_env
              "''node''" "''/app/gw.js''" "[''--port'', ''3000'']"]
  by (simp add: host_simps pm2_simps spec_start_command_def trim_def trimEnd_def
                is_white_space_def Let_def)

text \<open>
  C6. The stop and restart of the PM2 adapter after a nonzero exit of the native
  command: on a host where \<open>pm2 stop\<close> and \<open>pm2 restart\<close> of the service exit with 1
  and a line on stderr, \<open>stopPm2Service\<close> and \<open>restartPm2Service\<close> raise no error;
  they return normally and report the service as stopped and as restarted.
\<close>

theorem stopPm2Service_reports_success_on_failure:
  "code (fst (execPm2 (example_host False False missing_unit pm2_idle)
                [Some ''stop'', Some ''gateway''] [Exec ''pm2'' [Some ''--version'']])) = 1 \<and>
   stderr (fst (execPm2 (example_host False False missing_unit pm2_idle)
                  [Some ''stop'', Some ''gateway''] [Exec ''pm2'' [Some ''--version'']]))
     = ''[PM2][ERROR] Process or Namespace gateway not found'' \<and>
   stopPm2Service (example_host False False missing_unit pm2_idle) None []
     = (Inr (), [Exec ''pm2'' [Some ''--version''],
                 Exec ''pm2'' [Some ''stop'', Some ''gateway''],
                 Write (''Stopped PM2 service: gateway'' @ newline)]) \<and>
   code (fst (execPm2 (example_host False False missing_unit pm2_idle)
                [Some ''restart'', Some ''gateway''] [Exec ''pm2'' [Some ''--version'']])) = 1 \<and>
   restartPm2Service (example_host False False missing_unit pm2_idle) None []
     = (Inr (), [Exec ''pm2'' [Some ''--version''],
                 Exec ''pm2'' [Some ''restart'', Some ''gateway''],
                 Write (''Restarted PM2 service: gateway'' @ newline)])"
  by (simp add: stopPm2Service_def restartPm2Service_def host_simps pm2_simps)

lemma uninstallPm2Service_eq:
  "uninstallPm2Service X env tr =
     (if fst (isPm2Available X tr)
      then (Inr (), tr @ [Exec ''pm2'' [Some ''--version''],
                          Exec ''pm2'' [Some ''delete'', Some (resolvePm2ServiceName X env)],
                          Exec ''pm2'' [Some ''save''],
                          Write (formatLine X ''Removed PM2 service'' (resolvePm2ServiceName X env)
                                   @ newline)])
      else (Inl (JsError ''Error''
              ''pm2 not available; please install it globally with `npm install -g pm2`''),
            tr @ [Exec ''pm2'' [Some ''--version'']]))"
  by (simp add: uninstallPm2Service_def assertPm2Available_def isPm2Available_def execPm2_def
                Let_def)

lemma stopPm2Service_eq:
  "stopPm2Service X env tr =
     (if fst (isPm2Available X tr)
      then (Inr (), tr @ [Exec ''pm2'' [Some ''--version''],
                          Exec ''pm2'' [Some ''stop'', Some (resolvePm2ServiceName X (env_or_empty env))],
                          Write (formatLine X ''Stopped PM2 service''
                                   (resolvePm2ServiceName X (env_or_empty env)) @ newline)])
      else (Inl (JsError ''Error''
              ''pm2 not available; please install it globally with `npm install -g pm2`''),
            tr @ [Exec ''pm2'' [Some ''--version'']]))"
  by (simp add: stopPm2Service_def assertPm2Available_def isPm2Available_def execPm2_def Let_def)

lemma restartPm2Service_eq:
  "restartPm2Service X env tr =
     (if fst (isPm2Available X tr)
      then (Inr (), tr @ [Exec ''pm2'' [Some ''--version''],
                          Exec ''pm2'' [Some ''restart'', Some (resolvePm2ServiceName X (env_or_empty env))],
                          Write (formatLine X ''Restarted PM2 service''
                                   (resolvePm2ServiceName X (env_or_empty env)) @ newline)])
      else (Inl (JsError ''Error''
              ''pm2 not available; please install it globally with `npm install -g pm2`''),
            tr @ [Exec ''pm2'' [Some ''--version'']]))"
  by (simp add: restartPm2Service_def assertPm2Available_def isPm2Available_def execPm2_def Let_def)

lemma isPm2ServiceEnabled_eq:
  "isPm2ServiceEnabled X env tr =
     (if fst (isPm2Available X tr)
      then (code (fst (execPm2 X [Some ''describe'', Some (resolvePm2ServiceName X (env_or_empty env))]
                         (tr @ [Exec ''pm2'' [Some ''--version'']]))) = 0,
            tr @ [Exec ''pm2'' [Some ''--version''],
                  Exec ''pm2'' [Some ''describe'', Some (resolvePm2ServiceName X (env_or_empty env))]])
      else (False, tr @ [Exec ''pm2'' [Some ''--version'']]))"
  by (simp add: isPm2ServiceEnabled_def isPm2Available_def execPm2_def Let_def)

lemma linux_uninstall_returns: "fst (linux_uninstall X env tr) = Inr ()"
  by (simp add: linux_uninstall_def Let_def split: prod.splits)

lemma steady_sd: "steady_availability X sd pm2 \<Longrightarrow> isSystemdUserServiceAvailable X h = sd"
  by (simp add: steady_availability_def)

lemma steady_pm2: "steady_availability X sd pm2 \<Longrightarrow> fst (isPm2Available X h) = pm2"
  by (simp add: steady_availability_def)

lemma isPm2Available_steady:
  "steady_availability X sd pm2 \<Longrightarrow>
   isPm2Available X h = (pm2, h @ [Exec ''pm2'' [Some ''--version'']])"
  by (subst isPm2Available_split) (simp add: steady_pm2)

lemma steady_sd_enabled: "steady_enabled X env se pe \<Longrightarrow> isSystemdServiceEnabled X h env = se"
  by (simp add: steady_enabled_def)

lemma steady_pm2_enabled:
  "steady_enabled X env se pe \<Longrightarrow>
   (code (fst (execPm2 X [Some ''describe'', Some (resolvePm2ServiceName X (env_or_empty env))] h)) = 0)
     = pe"
  by (simp add: steady_enabled_def)

lemma linux_uninstall_steady:
  assumes st: "steady_availability X sd pm2"
  shows "snd (linux_uninstall X env tr) =
           tr @ [Systemd SdAvailable] @ (if sd then [Systemd SdUninstall] else []) @
           [Exec ''pm2'' [Some ''--version'']] @
           (if pm2
            then [Exec ''pm2'' [Some ''--version''],
                  Exec ''pm2'' [Some ''delete'', Some (resolvePm2ServiceName X env)],
                  Exec ''pm2'' [Some ''save''],
                  Write (formatLine X ''Removed PM2 service'' (resolvePm2ServiceName X env) @ newline)]
            else [])"
  by (simp add: linux_uninstall_def systemd_available_def systemd_uninstall_def
                uninstallPm2Service_eq Let_def steady_sd [OF st] isPm2Available_steady [OF st])

text \<open>
  C8, as amended. \<open>uninstall\<close> of the Linux set never throws, whatever the removal
  on either backend throws. On a host with steady availability it attempts the removal
  on each backend that is available, on both when both are, without asking which of
  them has the service: \<open>uninstallSystemdService\<close> is called exactly when systemd-user
  is available, and \<open>pm2 delete <svc>\<close> and \<open>pm2 save\<close> are run exactly when \<open>pm2\<close>
  is available.
\<close>

theorem linux_uninstall_best_effort:
  "fst (linux_uninstall X env tr) = Inr () \<and>
   (steady_availability X sd pm2 \<longrightarrow>
      snd (linux_uninstall X env tr) =
        tr @ [Systemd SdAvailable] @ (if sd then [Systemd SdUninstall] else []) @
        [Exec ''pm2'' [Some ''--version'']] @
        (if pm2
         then [Exec ''pm2'' [Some ''--version''],
               Exec ''pm2'' [Some ''delete'', Some (resolvePm2ServiceName X env)],
               Exec ''pm2'' [Some ''save''],
               Write (formatLine X ''Removed PM2 service'' (resolvePm2ServiceName X env) @ newline)]
         else []))"
  using linux_uninstall_returns linux_uninstall_steady by blast

theorem linux_uninstall_best_effort_witness:
  "steady_availability (example_host_systemd_failing (pm2_prints [])) True True \<and>
   linux_uninstall (example_host_systemd_failing (pm2_prints [])) no_env []
     = (Inr (), [Systemd SdAvailable, Systemd SdUninstall,
                 Exec ''pm2'' [Some ''--version''],
                 Exec ''pm2'' [Some ''--version''],
                 Exec ''pm2'' [Some ''delete'', Some ''gateway''],
                 Exec ''pm2'' [Some ''save''],
                 Write (''Removed PM2 service: gateway'' @ newline)]) \<and>
   steady_availability (example_host False False missing_unit pm2_absent) False False \<and>
   linux_uninstall (example_host False False missing_unit pm2_absent) no_env []
     = (Inr (), [Systemd SdAvailable, Exec ''pm2'' [Some ''--version'']])"
  using linux_uninstall_best_effort
          [of "example_host_systemd_failing (pm2_prints [])" no_env "[]" True True]
        linux_uninstall_best_effort
          [of "example_host False False missing_unit pm2_absent" no_env "[]" False False]
  by (simp add: steady_availability_def host_simps pm2_simps prod_eq_iff)

text \<open>
  C8 as stated fails: on a host without systemd-user, where \<open>pm2\<close> is installed, no
  removal is attempted on systemd-user.
\<close>

theorem linux_uninstall_both_counterexample:
  "\<not> (Systemd SdUninstall
        \<in> set (snd (linux_uninstall (example_host False False missing_unit pm2_idle) no_env [])) \<and>
      Exec ''pm2'' [Some ''delete'', Some ''gateway'']
        \<in> set (snd (linux_uninstall (example_host False False missing_unit pm2_idle) no_env [])))"
  by (simp add: linux_uninstall_def systemd_available_def uninstallPm2Service_eq
                host_simps pm2_simps)

lemma invocations_append [simp]: "invocations (xs @ ys) = invocations xs @ invocations ys"
  by (simp add: invocations_def map_filter_def)

lemma invocations_Nil [simp]: "invocations [] = []"
  by (simp add: invocations_def map_filter_def)

lemma invocations_Cons [simp]:
  "invocations (x # xs) = (case invoked x of None \<Rightarrow> invocations xs | Some b \<Rightarrow> b # invocations xs)"
  by (simp add: invocations_def map_filter_def split: option.splits)

lemma sd_both_steady:
  assumes a: "steady_availability X sa pa" and e: "steady_enabled X env se pe"
  shows "systemd_available_and_enabled X env h =
           (sa \<and> se, h @ [Systemd SdAvailable] @ (if sa then [Systemd SdEnabled] else []))"
  by (simp add: systemd_available_and_enabled_def systemd_available_def systemd_enabled_def
                steady_sd [OF a] steady_sd_enabled [OF e])

lemma pm2_both_steady:
  assumes a: "steady_availability X sa pa" and e: "steady_enabled X env se pe"
  shows "pm2_available_and_enabled X env h =
           (pa \<and> pe,
            h @ [Exec ''pm2'' [Some ''--version'']] @
            (if pa then [Exec ''pm2'' [Some ''--version''],
                         Exec ''pm2'' [Some ''describe'',
                                       Some (resolvePm2ServiceName X (env_or_empty env))]]
             else []))"
  by (simp add: pm2_available_and_enabled_def isPm2ServiceEnabled_eq
                isPm2Available_steady [OF a] steady_pm2_enabled [OF e])

text \<open>
  What \<open>stop\<close> and \<open>restart\<close> of the Linux set invoke on a host whose probes answer
  steadily. \<open>stop\<close> invokes exactly one stop primitive, that of the backend the
  precedence of the specification gives. \<open>restart\<close> invokes exactly one restart
  primitive, of the same backend, except that with systemd-user unavailable and PM2
  available it restarts through PM2 also when PM2 does not report the service enabled.
\<close>

theorem linux_stop_restart_precedence:
  "steady_availability X sa pa \<and> steady_enabled X env se pe \<longrightarrow>
     invocations (snd (linux_stop X env tr))
       = invocations tr @ [(spec_precedence sa se pa pe, Stop)] \<and>
     invocations (snd (linux_restart X env tr))
       = invocations tr @ [(if \<not> sa \<and> pa then PM2 else spec_precedence sa se pa pe, Restart)]"
proof (intro impI, elim conjE)
  assume a: "steady_availability X sa pa" and e: "steady_enabled X env se pe"
  have stop: "invocations (snd (linux_stop X env tr))
       = invocations tr @ [(spec_precedence sa se pa pe, Stop)]"
    by (simp add: linux_stop_def sd_both_steady [OF a e] pm2_both_steady [OF a e]
                  systemd_stop_def stopPm2Service_eq isPm2Available_steady [OF a]
                  spec_precedence_def)
  have restart: "invocations (snd (linux_restart X env tr))
       = invocations tr @ [(if \<not> sa \<and> pa then PM2 else spec_precedence sa se pa pe, Restart)]"
    by (simp add: linux_restart_def sd_both_steady [OF a e] pm2_both_steady [OF a e]
                  systemd_restart_def systemd_available_def restartPm2Service_eq
                  isPm2Available_steady [OF a] steady_sd [OF a] spec_precedence_def)
  from stop restart show "invocations (snd (linux_stop X env tr))
       = invocations tr @ [(spec_precedence sa se pa pe, Stop)] \<and>
     invocations (snd (linux_restart X env tr))
       = invocations tr @ [(if \<not> sa \<and> pa then PM2 else spec_precedence sa se pa pe, Restart)]"
    by simp
qed

theorem linux_stop_restart_precedence_witness:
  "steady_availability (example_host False False missing_unit pm2_idle) False True \<and>
   steady_enabled (example_host False False missing_unit pm2_idle) None False False \<and>
   invocations (snd (linux_stop (example_host False False missing_unit pm2_idle) None []))
     = [(SystemdUser, Stop)] \<and>
   invocations (snd (linux_restart (example_host False False missing_unit pm2_idle) None []))
     = [(PM2, Restart)] \<and>
   steady_availability (example_host True False missing_unit (pm2_prints [])) True True \<and>
   steady_enabled (example_host True False missing_unit (pm2_prints [])) None False True \<and>
   invocations (snd (linux_stop (example_host True False missing_unit (pm2_prints [])) None []))
     = [(PM2, Stop)] \<and>
   invocations (snd (linux_restart (example_host True False missing_unit (pm2_prints [])) None []))
     = [(PM2, Restart)] \<and>
   steady_availability (example_host True True missing_unit (pm2_prints [])) True True \<and>
   steady_enabled (example_host True True missing_unit (pm2_prints [])) None True True \<and>
   invocations (snd (linux_stop (example_host True True missing_unit (pm2_prints [])) None []))
     = [(SystemdUser, Stop)] \<and>
   invocations (snd (linux_restart (example_host True True missing_unit (pm2_prints [])) None []))
     = [(SystemdUser, Restart)]"
  using linux_stop_restart_precedence
          [of "example_host False False missing_unit pm2_idle" False True None False False "[]"]
        linux_stop_restart_precedence
          [of "example_host True False missing_unit (pm2_prints [])" True True None False True "[]"]
        linux_stop_restart_precedence
          [of "example_host True True missing_unit (pm2_prints [])" True True None True True "[]"]
  by (simp add: steady_availability_def steady_enabled_def spec_precedence_def
                host_simps pm2_simps)

text \<open>
  C1. On a host without systemd-user, where \<open>pm2\<close> is installed and does not know
  the service (\<open>pm2 describe\<close> exits with 1), no backend reports the service enabled.
  \<open>stop\<close> forces the stop of systemd-user there, as the precedence of the
  specification says. \<open>restart\<close> does not force the restart of systemd-user: it
  probes availability once more, runs \<open>pm2 restart\<close>, which exits with 1, and
  reports the service as restarted.
\<close>

theorem linux_restart_falls_back_to_pm2:
  "spec_precedence False False True False = SystemdUser \<and>
   invocations (snd (linux_stop (example_host False False missing_unit pm2_idle) None []))
     = [(SystemdUser, Stop)] \<and>
   invocations (snd (linux_restart (example_host False False missing_unit pm2_idle) None []))
     = [(PM2, Restart)] \<and>
   linux_restart (example_host False False missing_unit pm2_idle) None []
     = (Inr (),
        [Systemd SdAvailable,
         Exec ''pm2'' [Some ''--version''],
         Exec ''pm2'' [Some ''--version''],
         Exec ''pm2'' [Some ''describe'', Some ''gateway''],
         Systemd SdAvailable,
         Exec ''pm2'' [Some ''--version''],
         Exec ''pm2'' [Some ''--version''],
         Exec ''pm2'' [Some ''restart'', Some ''gateway''],
         Write (''Restarted PM2 service: gateway'' @ newline)]) \<and>
   code (fst (execPm2 (example_host False False missing_unit pm2_idle)
                [Some ''restart'', Some ''gateway''] [])) = 1"
  by (simp add: linux_restart_def linux_stop_def systemd_available_and_enabled_def
                pm2_available_and_enabled_def systemd_available_def systemd_stop_def
                isPm2ServiceEnabled_eq restartPm2Service_eq spec_precedence_def
                host_simps pm2_simps)

end
